theory Spec2Isabelle
  imports Complex_Main
begin

section \<open>Python values used by the balance service\<close>

text \<open>
  The service of \<^verbatim>\<open>history/services/balance_service.py\<close> is embedded as pure functions
  that pass the service object (its three caches) explicitly. Every exception the source
  can raise is a value of \<open>error\<close>; a call returns its result or error together with the
  service state it leaves behind, because cache writes made before an exception persist.
\<close>

datatype error =
    AssertionError
  | CannotGetEthereumPrice
  | OracleException
  | KeyError
  | IndexError
  | TypeError
  | ValueError
  | AttributeError
  | OverflowError
  | ZeroDivisionError
  | OtherError string

definition and_then :: "error + 'a \<Rightarrow> ('a \<Rightarrow> error + 'b) \<Rightarrow> error + 'b" where
  "and_then r f = (case r of Inl e \<Rightarrow> Inl e | Inr v \<Rightarrow> f v)"

subsection \<open>Floats\<close>

text \<open>
  A Python float is an IEEE 754 binary64 number. A finite one is represented by the rational
  it denotes; the two zeros are one value (they are equal under \<^verbatim>\<open>==\<close> and both falsy,
  which is all the service observes). Every arithmetic result is rounded to the nearest
  binary64 number, ties to even, by \<open>fl64\<close>.
\<close>

datatype pyfloat = Fin rat | PInf | NInf | NaN

function bit_length :: "int \<Rightarrow> int" where
  "bit_length n = (if n \<le> 0 then 0 else 1 + bit_length (n div 2))"
  by pat_completeness auto
termination
  by (relation "measure nat") auto

declare bit_length.simps [simp del]

definition pow2 :: "int \<Rightarrow> rat" where
  "pow2 k = (if 0 \<le> k then 2 ^ nat k else 1 / 2 ^ nat (- k))"

text \<open>\<open>ilog2 x\<close> is the exponent \<open>e\<close> with \<open>2^e \<le> x < 2^(e+1)\<close>, for positive \<open>x\<close>.\<close>

definition ilog2 :: "rat \<Rightarrow> int" where
  "ilog2 x = (if 1 \<le> x then bit_length \<lfloor>x\<rfloor> - 1 else - bit_length (\<lceil>1 / x\<rceil> - 1))"

definition round_half_even :: "rat \<Rightarrow> int" where
  "round_half_even x =
     (if x - of_int \<lfloor>x\<rfloor> < 1 / 2 then \<lfloor>x\<rfloor>
      else if 1 / 2 < x - of_int \<lfloor>x\<rfloor> then \<lfloor>x\<rfloor> + 1
      else if even \<lfloor>x\<rfloor> then \<lfloor>x\<rfloor> else \<lfloor>x\<rfloor> + 1)"

text \<open>
  Rounding to binary64: 53 significant bits, least exponent of the last place \<open>-1074\<close>
  (subnormal numbers), overflow to infinity from \<open>2^1024\<close> on.
\<close>

definition ulp_exponent :: "rat \<Rightarrow> int" where
  "ulp_exponent a = max (ilog2 a - 52) (- 1074)"

definition round_magnitude :: "rat \<Rightarrow> rat" where
  "round_magnitude a = of_int (round_half_even (a / pow2 (ulp_exponent a))) * pow2 (ulp_exponent a)"

definition fl64 :: "rat \<Rightarrow> pyfloat" where
  "fl64 x =
     (if x = 0 then Fin 0
      else if pow2 1024 \<le> round_magnitude \<bar>x\<bar> then (if 0 < x then PInf else NInf)
      else Fin (if 0 < x then round_magnitude \<bar>x\<bar> else - round_magnitude \<bar>x\<bar>))"

text \<open>Truthiness of a float: \<^verbatim>\<open>not price\<close> holds exactly for zero (NaN is truthy).\<close>

definition float_truthy :: "pyfloat \<Rightarrow> bool" where
  "float_truthy x \<longleftrightarrow> x \<noteq> Fin 0"

fun float_neg :: "pyfloat \<Rightarrow> pyfloat" where
  "float_neg (Fin a) = Fin (- a)"
| "float_neg PInf = NInf"
| "float_neg NInf = PInf"
| "float_neg NaN = NaN"

text \<open>\<^verbatim>\<open>x * y\<close> on floats.\<close>

fun float_mul :: "pyfloat \<Rightarrow> pyfloat \<Rightarrow> pyfloat" where
  "float_mul NaN _ = NaN"
| "float_mul _ NaN = NaN"
| "float_mul (Fin a) (Fin b) = fl64 (a * b)"
| "float_mul (Fin a) PInf = (if a = 0 then NaN else if 0 < a then PInf else NInf)"
| "float_mul (Fin a) NInf = (if a = 0 then NaN else if 0 < a then NInf else PInf)"
| "float_mul PInf (Fin b) = (if b = 0 then NaN else if 0 < b then PInf else NInf)"
| "float_mul NInf (Fin b) = (if b = 0 then NaN else if 0 < b then NInf else PInf)"
| "float_mul PInf PInf = PInf"
| "float_mul PInf NInf = NInf"
| "float_mul NInf PInf = NInf"
| "float_mul NInf NInf = PInf"

text \<open>
  \<^verbatim>\<open>a / b\<close> on two ints (true division): the correctly rounded quotient; a zero divisor
  and a quotient too large for a float raise.
\<close>

definition int_truediv :: "int \<Rightarrow> int \<Rightarrow> error + pyfloat" where
  "int_truediv a b =
     (if b = 0 then Inl ZeroDivisionError
      else (case fl64 (of_int a / of_int b) of
              PInf \<Rightarrow> Inl OverflowError
            | NInf \<Rightarrow> Inl OverflowError
            | q \<Rightarrow> Inr q))"

text \<open>\<^verbatim>\<open>float(n)\<close> on an int.\<close>

definition float_of_int :: "int \<Rightarrow> error + pyfloat" where
  "float_of_int n =
     (case fl64 (of_int n) of
        PInf \<Rightarrow> Inl OverflowError
      | NInf \<Rightarrow> Inl OverflowError
      | q \<Rightarrow> Inr q)"

text \<open>
  \<^verbatim>\<open>round(x, 4)\<close> on a float: infinities and NaN round to themselves; a finite float is
  rounded, on its exact value and ties to even, to 4 decimal digits, and the decimal result
  is converted back to the nearest float.
\<close>

definition py_round4 :: "pyfloat \<Rightarrow> error + pyfloat" where
  "py_round4 x =
     (case x of
        Fin a \<Rightarrow>
          (case fl64 (of_int (round_half_even (a * 10 ^ 4)) / 10 ^ 4) of
             PInf \<Rightarrow> Inl OverflowError
           | NInf \<Rightarrow> Inl OverflowError
           | r \<Rightarrow> Inr r)
      | _ \<Rightarrow> Inr x)"

subsection \<open>JSON payloads\<close>

text \<open>
  What \<^verbatim>\<open>response.json()\<close> returns: \<^verbatim>\<open>None\<close>, a bool, an int, a float, a str, a list
  or a dict with str keys (in insertion order; a dict holds each key once, and a lookup
  reads the first binding).
\<close>

datatype json =
    JNull
  | JBool bool
  | JInt int
  | JFloat pyfloat
  | JStr string
  | JList "json list"
  | JObj "(string \<times> json) list"

fun py_truthy :: "json \<Rightarrow> bool" where
  "py_truthy JNull = False"
| "py_truthy (JBool b) = b"
| "py_truthy (JInt n) = (n \<noteq> 0)"
| "py_truthy (JFloat x) = float_truthy x"
| "py_truthy (JStr s) = (s \<noteq> [])"
| "py_truthy (JList xs) = (xs \<noteq> [])"
| "py_truthy (JObj kvs) = (kvs \<noteq> [])"

text \<open>\<^verbatim>\<open>x.get(k)\<close>: only a dict has the method.\<close>

fun py_get :: "json \<Rightarrow> string \<Rightarrow> error + json" where
  "py_get (JObj kvs) k = Inr (case map_of kvs k of None \<Rightarrow> JNull | Some v \<Rightarrow> v)"
| "py_get _ k = Inl AttributeError"

text \<open>\<^verbatim>\<open>x[k]\<close> with a str \<open>k\<close>.\<close>

fun py_getitem_str :: "json \<Rightarrow> string \<Rightarrow> error + json" where
  "py_getitem_str (JObj kvs) k = (case map_of kvs k of None \<Rightarrow> Inl KeyError | Some v \<Rightarrow> Inr v)"
| "py_getitem_str _ k = Inl TypeError"

text \<open>\<^verbatim>\<open>x[i]\<close> with an int \<open>i\<close>: a negative index counts from the end.\<close>

definition seq_index :: "'a list \<Rightarrow> int \<Rightarrow> error + 'a" where
  "seq_index xs i =
     (if 0 \<le> i \<and> i < int (length xs) then Inr (xs ! nat i)
      else if i < 0 \<and> - int (length xs) \<le> i then Inr (xs ! nat (int (length xs) + i))
      else Inl IndexError)"

fun py_getitem_int :: "json \<Rightarrow> int \<Rightarrow> error + json" where
  "py_getitem_int (JList xs) i = seq_index xs i"
| "py_getitem_int (JStr s) i = and_then (seq_index s i) (\<lambda>c. Inr (JStr [c]))"
| "py_getitem_int (JObj kvs) i = Inl KeyError"
| "py_getitem_int _ i = Inl TypeError"

text \<open>\<^verbatim>\<open>x[k]\<close> with any JSON value as \<open>k\<close> (a bool is the int 0 or 1).\<close>

fun py_getitem :: "json \<Rightarrow> json \<Rightarrow> error + json" where
  "py_getitem x (JStr k) = py_getitem_str x k"
| "py_getitem x (JInt i) = py_getitem_int x i"
| "py_getitem x (JBool b) = py_getitem_int x (if b then 1 else 0)"
| "py_getitem (JObj kvs) JNull = Inl KeyError"
| "py_getitem (JObj kvs) (JFloat f) = Inl KeyError"
| "py_getitem x k = Inl TypeError"

text \<open>
  The first value a \<^verbatim>\<open>for\<close> loop over \<open>x\<close> binds, \<open>None\<close> when \<open>x\<close> is empty: a dict
  yields its keys, a list its elements, a str its characters.
\<close>

fun py_iter_first :: "json \<Rightarrow> error + json option" where
  "py_iter_first (JObj kvs) = Inr (case kvs of [] \<Rightarrow> None | (k, v) # _ \<Rightarrow> Some (JStr k))"
| "py_iter_first (JList xs) = Inr (case xs of [] \<Rightarrow> None | x # _ \<Rightarrow> Some x)"
| "py_iter_first (JStr s) = Inr (case s of [] \<Rightarrow> None | c # _ \<Rightarrow> Some (JStr [c]))"
| "py_iter_first _ = Inl TypeError"

text \<open>
  \<^verbatim>\<open>float(x)\<close>. The conversion of a str is the parameter \<open>str_to_float\<close>
  (\<open>None\<close> where Python raises \<^verbatim>\<open>ValueError\<close>).
\<close>

fun py_float :: "(string \<Rightarrow> pyfloat option) \<Rightarrow> json \<Rightarrow> error + pyfloat" where
  "py_float str_to_float (JStr s) =
     (case str_to_float s of None \<Rightarrow> Inl ValueError | Some x \<Rightarrow> Inr x)"
| "py_float str_to_float (JFloat x) = Inr x"
| "py_float str_to_float (JInt n) = float_of_int n"
| "py_float str_to_float (JBool b) = Inr (Fin (if b then 1 else 0))"
| "py_float str_to_float _ = Inl TypeError"

section \<open>Caches\<close>

text \<open>
  Modelled from the spec: the class \<^verbatim>\<open>TTLCache\<close> of the caching library, which the source
  only constructs (\<^verbatim>\<open>TTLCache(maxsize=2048, ttl=60 * 30)\<close>). An entry holds its key, its
  value and its insertion time; it is expired when \<open>now - insertion_time \<ge> ttl\<close>; the cache
  is bounded in entry count, and the least recently inserted entries are evicted once the
  capacity is reached. Clock readings are rationals, in seconds.
\<close>

record ('k, 'v) CacheEntry =
  entry_key :: 'k
  entry_value :: 'v
  insertion_time :: rat

record ('k, 'v) TTLCache =
  maxsize :: nat
  ttl :: rat
  entries :: "('k, 'v) CacheEntry list"

definition TTLCache_init :: "nat \<Rightarrow> rat \<Rightarrow> ('k, 'v) TTLCache" where
  "TTLCache_init m t = \<lparr>maxsize = m, ttl = t, entries = []\<rparr>"

definition expired :: "rat \<Rightarrow> rat \<Rightarrow> ('k, 'v) CacheEntry \<Rightarrow> bool" where
  "expired t now e \<longleftrightarrow> t \<le> now - insertion_time e"

text \<open>\<^verbatim>\<open>cache[k]\<close>: \<open>None\<close> is the \<^verbatim>\<open>KeyError\<close> of a missing or expired key.\<close>

definition ttl_getitem :: "('k, 'v) TTLCache \<Rightarrow> rat \<Rightarrow> 'k \<Rightarrow> 'v option" where
  "ttl_getitem c now k =
     (case find (\<lambda>e. entry_key e = k) (entries c) of
        None \<Rightarrow> None
      | Some e \<Rightarrow> if expired (ttl c) now e then None else Some (entry_value e))"

text \<open>
  \<^verbatim>\<open>cache[k] = v\<close>: expired entries are removed first; a cache of capacity 0 takes no
  value; otherwise the oldest entries make room and the new entry is the youngest.
\<close>

definition ttl_setitem :: "('k, 'v) TTLCache \<Rightarrow> rat \<Rightarrow> 'k \<Rightarrow> 'v \<Rightarrow> ('k, 'v) TTLCache" where
  "ttl_setitem c now k v =
     (let live = filter (\<lambda>e. \<not> expired (ttl c) now e) (entries c);
          others = filter (\<lambda>e. entry_key e \<noteq> k) live
      in if maxsize c < 1 then c\<lparr>entries := live\<rparr>
         else c\<lparr>entries := drop (Suc (length others) - maxsize c) others
                              @ [\<lparr>entry_key = k, entry_value = v, insertion_time = now\<rparr>]\<rparr>)"

section \<open>Data model\<close>

text \<open>\<^verbatim>\<open>Erc20Info\<close> of the Ethereum client: what the token-info lookup returns.\<close>

record Erc20Info =
  info_name :: string
  info_symbol :: string
  info_decimals :: nat

definition get_erc20_logo_uri :: "string \<Rightarrow> string" where
  "get_erc20_logo_uri address = ''https://gnosis-safe-token-logos.s3.amazonaws.com/'' @ address @ ''.png''"

record Erc20InfoWithLogo =
  address :: string
  name :: string
  symbol :: string
  decimals :: nat
  logo_uri :: string

text \<open>The constructor with its \<^verbatim>\<open>__post_init__\<close>.\<close>

definition Erc20InfoWithLogo_init :: "string \<Rightarrow> string \<Rightarrow> string \<Rightarrow> nat \<Rightarrow> Erc20InfoWithLogo" where
  "Erc20InfoWithLogo_init a n sy d =
     \<lparr>address = a, name = n, symbol = sy, decimals = d, logo_uri = get_erc20_logo_uri a\<rparr>"

text \<open>An entry of the raw balances of the Ethereum client: a dict with these two keys.\<close>

record raw_balance =
  raw_token_address :: "string option"
  raw_amount :: int

record Balance =
  token_address :: "string option"
  token :: "Erc20InfoWithLogo option"
  balance :: int

record BalanceWithUsd = Balance +
  balance_usd :: pyfloat

text \<open>\<^verbatim>\<open>not token_address\<close>: \<^verbatim>\<open>None\<close> and the empty str are falsy.\<close>

fun address_truthy :: "string option \<Rightarrow> bool" where
  "address_truthy None = False"
| "address_truthy (Some a) = (a \<noteq> [])"

section \<open>Collaborators and service state\<close>

record http_response =
  ok :: bool
  json_body :: json

text \<open>
  The outside world during one call: the clock reading, the collaborators' answers and
  the library functions the source calls. A collaborator that raises answers \<open>None\<close>
  (\<^verbatim>\<open>InvalidERC20Info\<close> of the token-info lookup) or \<open>Inl\<close> of the exception (the oracles);
  the ticker endpoints answer with a status and a JSON payload.
\<close>

record env =
  now :: rat
  isChecksumAddress :: "string \<Rightarrow> bool"
  str_to_float :: "string \<Rightarrow> pyfloat option"
  erc20_tokens_used_by_address :: "string \<Rightarrow> string list"
  erc20_get_balances :: "string \<Rightarrow> string list \<Rightarrow> raw_balance list"
  erc20_get_info :: "string \<Rightarrow> Erc20Info option"
  uniswap_get_price :: "string \<Rightarrow> error + pyfloat"
  kyber_get_price :: "string \<Rightarrow> error + pyfloat"
  kraken_ticker :: http_response
  binance_ticker :: http_response

text \<open>The calls made to collaborators, in order: the record of the service's effects.\<close>

datatype call =
    HttpGet string
  | Erc20TokensUsed string
  | Erc20GetBalances string "string list"
  | Erc20GetInfo string
  | UniswapGetPrice string
  | KyberGetPrice string

record BalanceService =
  cache_eth_usd_price :: "(unit, pyfloat option) TTLCache"
  cache_token_eth_value :: "(string, pyfloat) TTLCache"
  cache_token_info :: "string \<rightharpoonup> Erc20InfoWithLogo option"
  calls :: "call list"

definition BalanceService_init :: BalanceService where
  "BalanceService_init =
     \<lparr>cache_eth_usd_price = TTLCache_init 2048 (60 * 30),
      cache_token_eth_value = TTLCache_init 2048 (60 * 30),
      cache_token_info = Map.empty,
      calls = []\<rparr>"

definition did :: "call \<Rightarrow> BalanceService \<Rightarrow> BalanceService" where
  "did c s = s\<lparr>calls := calls s @ [c]\<rparr>"

section \<open>The balance service\<close>

subsection \<open>Token metadata\<close>

text \<open>The body of \<^verbatim>\<open>get_token_info\<close>: a failed lookup is logged and answered with \<^verbatim>\<open>None\<close>.\<close>

definition get_token_info_wrapped ::
  "env \<Rightarrow> string \<Rightarrow> BalanceService \<Rightarrow> Erc20InfoWithLogo option \<times> BalanceService" where
  "get_token_info_wrapped env token_addr s =
     (case erc20_get_info env token_addr of
        Some erc20_info \<Rightarrow>
          (Some (Erc20InfoWithLogo_init token_addr (info_name erc20_info)
                   (info_symbol erc20_info) (info_decimals erc20_info)),
           did (Erc20GetInfo token_addr) s)
      | None \<Rightarrow> (None, did (Erc20GetInfo token_addr) s))"

text \<open>
  \<^verbatim>\<open>get_token_info\<close> as decorated with \<^verbatim>\<open>cachedmethod\<close> over the dict
  \<^verbatim>\<open>cache_token_info\<close>: a key that is present is answered from the dict; otherwise the
  body runs and whatever it returns is stored under the key.
\<close>

definition get_token_info ::
  "env \<Rightarrow> string \<Rightarrow> BalanceService \<Rightarrow> Erc20InfoWithLogo option \<times> BalanceService" where
  "get_token_info env token_addr s =
     (case cache_token_info s token_addr of
        Some v \<Rightarrow> (v, s)
      | None \<Rightarrow>
          (case get_token_info_wrapped env token_addr s of
             (v, s1) \<Rightarrow> (v, s1\<lparr>cache_token_info := (cache_token_info s1)(token_addr \<mapsto> v)\<rparr>)))"

subsection \<open>Balances\<close>

fun get_balances_loop ::
  "env \<Rightarrow> raw_balance list \<Rightarrow> Balance list \<Rightarrow> BalanceService \<Rightarrow> Balance list \<times> BalanceService" where
  "get_balances_loop env [] balances s = (balances, s)"
| "get_balances_loop env (b # rest) balances s =
     (if \<not> address_truthy (raw_token_address b) then
        get_balances_loop env rest
          (balances @ [\<lparr>token_address = raw_token_address b, token = None, balance = raw_amount b\<rparr>]) s
      else if 0 < raw_amount b then
        (case get_token_info env (the (raw_token_address b)) s of
           (tok, s1) \<Rightarrow>
             if tok = None then get_balances_loop env rest balances s1
             else get_balances_loop env rest
                    (balances @ [\<lparr>token_address = raw_token_address b, token = tok, balance = raw_amount b\<rparr>]) s1)
      else get_balances_loop env rest balances s)"

definition get_balances ::
  "env \<Rightarrow> string \<Rightarrow> BalanceService \<Rightarrow> (error + Balance list) \<times> BalanceService" where
  "get_balances env safe_address s =
     (if \<not> isChecksumAddress env safe_address then (Inl AssertionError, s)
      else
        let erc20_addresses = erc20_tokens_used_by_address env safe_address;
            raw_balances = erc20_get_balances env safe_address erc20_addresses
        in (case get_balances_loop env raw_balances []
                   (did (Erc20GetBalances safe_address erc20_addresses)
                      (did (Erc20TokensUsed safe_address) s)) of
              (balances, s1) \<Rightarrow> (Inr balances, s1)))"

subsection \<open>Base-currency price\<close>

definition binance_url :: string where
  "binance_url = ''https://api.binance.com/api/v3/avgPrice?symbol=ETHUSDT''"

definition kraken_url :: string where
  "kraken_url = ''https://api.kraken.com/0/public/Ticker?pair=ETHUSD''"

text \<open>\<^verbatim>\<open>except ValueError as e: raise CannotGetEthereumPrice from e\<close>\<close>

definition except_ValueError :: "error + 'a \<Rightarrow> error + 'a" where
  "except_ValueError r =
     (case r of
        Inl e \<Rightarrow> if e = ValueError then Inl CannotGetEthereumPrice else Inl e
      | Inr v \<Rightarrow> Inr v)"

text \<open>
  The two ticker methods: the request is made, then the payload is read. What the method
  returns or raises for the response is \<open>binance_outcome\<close>, \<open>kraken_outcome\<close>; a value
  \<open>Inr None\<close> is the \<^verbatim>\<open>None\<close> a Python function returns when its body ends.
\<close>

definition binance_outcome :: "env \<Rightarrow> error + pyfloat option" where
  "binance_outcome env =
     (let response = binance_ticker env;
          api_json = json_body response
      in if \<not> ok response then
           and_then (py_get api_json ''msg'') (\<lambda>msg. Inl CannotGetEthereumPrice)
         else
           except_ValueError
             (and_then (py_getitem_str api_json ''price'') (\<lambda>p.
              and_then (py_float (str_to_float env) p) (\<lambda>price.
                if \<not> float_truthy price then Inl CannotGetEthereumPrice
                else Inr (Some price)))))"

definition get_eth_usd_price_binance ::
  "env \<Rightarrow> BalanceService \<Rightarrow> (error + pyfloat option) \<times> BalanceService" where
  "get_eth_usd_price_binance env s = (binance_outcome env, did (HttpGet binance_url) s)"

definition kraken_outcome :: "env \<Rightarrow> error + pyfloat option" where
  "kraken_outcome env =
     (let response = kraken_ticker env;
          api_json = json_body response
      in and_then (py_get api_json ''error'') (\<lambda>err.
           if \<not> ok response \<or> py_truthy err then
             and_then (py_getitem_str api_json ''error'') (\<lambda>msg. Inl CannotGetEthereumPrice)
           else
             except_ValueError
               (and_then (py_getitem_str api_json ''result'') (\<lambda>result.
                and_then (py_iter_first result) (\<lambda>first.
                  case first of
                    None \<Rightarrow> Inr None
                  | Some new_ticker \<Rightarrow>
                      and_then (py_getitem result new_ticker) (\<lambda>ticker.
                      and_then (py_getitem_str ticker ''c'') (\<lambda>c.
                      and_then (py_getitem_int c 0) (\<lambda>c0.
                      and_then (py_float (str_to_float env) c0) (\<lambda>price.
                        if \<not> float_truthy price then Inl CannotGetEthereumPrice
                        else Inr (Some price))))))))))"

definition get_eth_usd_price_kraken ::
  "env \<Rightarrow> BalanceService \<Rightarrow> (error + pyfloat option) \<times> BalanceService" where
  "get_eth_usd_price_kraken env s = (kraken_outcome env, did (HttpGet kraken_url) s)"

text \<open>The body of \<^verbatim>\<open>get_eth_usd_price\<close>: only \<^verbatim>\<open>CannotGetEthereumPrice\<close> falls back.\<close>

definition get_eth_usd_price_wrapped ::
  "env \<Rightarrow> BalanceService \<Rightarrow> (error + pyfloat option) \<times> BalanceService" where
  "get_eth_usd_price_wrapped env s =
     (case get_eth_usd_price_kraken env s of
        (Inl e, s1) \<Rightarrow>
          if e = CannotGetEthereumPrice then get_eth_usd_price_binance env s1 else (Inl e, s1)
      | (Inr v, s1) \<Rightarrow> (Inr v, s1))"

text \<open>
  \<^verbatim>\<open>get_eth_usd_price\<close> as decorated with \<^verbatim>\<open>cachedmethod\<close> over \<^verbatim>\<open>cache_eth_usd_price\<close>;
  the method has no argument, so the key is the empty tuple. An exception of the body
  leaves the cache as it is.
\<close>

definition get_eth_usd_price ::
  "env \<Rightarrow> BalanceService \<Rightarrow> (error + pyfloat option) \<times> BalanceService" where
  "get_eth_usd_price env s =
     (case ttl_getitem (cache_eth_usd_price s) (now env) () of
        Some v \<Rightarrow> (Inr v, s)
      | None \<Rightarrow>
          (case get_eth_usd_price_wrapped env s of
             (Inl e, s1) \<Rightarrow> (Inl e, s1)
           | (Inr v, s1) \<Rightarrow>
               (Inr v, s1\<lparr>cache_eth_usd_price :=
                             ttl_setitem (cache_eth_usd_price s1) (now env) () v\<rparr>)))"

subsection \<open>Token price in base currency\<close>

text \<open>The body of \<^verbatim>\<open>get_token_eth_value\<close>: only \<^verbatim>\<open>OracleException\<close> is caught.\<close>

definition get_token_eth_value_wrapped ::
  "env \<Rightarrow> string \<Rightarrow> BalanceService \<Rightarrow> (error + pyfloat) \<times> BalanceService" where
  "get_token_eth_value_wrapped env token_addr s =
     (case uniswap_get_price env token_addr of
        Inr p \<Rightarrow> (Inr p, did (UniswapGetPrice token_addr) s)
      | Inl e \<Rightarrow>
          if e = OracleException then
            (case kyber_get_price env token_addr of
               Inr p \<Rightarrow>
                 (Inr p, did (KyberGetPrice token_addr) (did (UniswapGetPrice token_addr) s))
             | Inl e2 \<Rightarrow>
                 if e2 = OracleException then
                   (Inr (Fin 0),
                    did (KyberGetPrice token_addr) (did (UniswapGetPrice token_addr) s))
                 else
                   (Inl e2,
                    did (KyberGetPrice token_addr) (did (UniswapGetPrice token_addr) s)))
          else (Inl e, did (UniswapGetPrice token_addr) s))"

definition get_token_eth_value ::
  "env \<Rightarrow> string \<Rightarrow> BalanceService \<Rightarrow> (error + pyfloat) \<times> BalanceService" where
  "get_token_eth_value env token_addr s =
     (case ttl_getitem (cache_token_eth_value s) (now env) token_addr of
        Some v \<Rightarrow> (Inr v, s)
      | None \<Rightarrow>
          (case get_token_eth_value_wrapped env token_addr s of
             (Inl e, s1) \<Rightarrow> (Inl e, s1)
           | (Inr v, s1) \<Rightarrow>
               (Inr v, s1\<lparr>cache_token_eth_value :=
                             ttl_setitem (cache_token_eth_value s1) (now env) token_addr v\<rparr>)))"

subsection \<open>Valuation\<close>

text \<open>\<^verbatim>\<open>eth_value * x\<close>, where \<open>eth_value\<close> may be \<^verbatim>\<open>None\<close>.\<close>

definition eth_value_mul :: "pyfloat option \<Rightarrow> pyfloat \<Rightarrow> error + pyfloat" where
  "eth_value_mul eth_value x =
     (case eth_value of None \<Rightarrow> Inl TypeError | Some e \<Rightarrow> Inr (float_mul e x))"

text \<open>The value \<^verbatim>\<open>balance_usd\<close> of one pass through the loop of \<^verbatim>\<open>get_usd_balances\<close>.\<close>

definition balance_usd_of ::
  "env \<Rightarrow> pyfloat option \<Rightarrow> Balance \<Rightarrow> BalanceService \<Rightarrow> (error + pyfloat) \<times> BalanceService" where
  "balance_usd_of env eth_value b s =
     (if \<not> address_truthy (token_address b) then
        (and_then (int_truediv (balance b) (10 ^ 18)) (\<lambda>d. eth_value_mul eth_value d), s)
      else
        (case get_token_eth_value env (the (token_address b)) s of
           (Inl e, s1) \<Rightarrow> (Inl e, s1)
         | (Inr token_to_eth_price, s1) \<Rightarrow>
             if float_truthy token_to_eth_price then
               (case token b of
                  None \<Rightarrow> (Inl AttributeError, s1)
                | Some tok \<Rightarrow>
                    (and_then (int_truediv (balance b) (10 ^ decimals tok))
                       (\<lambda>balance_with_decimals.
                          and_then (eth_value_mul eth_value token_to_eth_price)
                            (\<lambda>x. Inr (float_mul x balance_with_decimals))),
                     s1))
             else (Inr (Fin 0), s1)))"

fun get_usd_balances_loop ::
  "env \<Rightarrow> pyfloat option \<Rightarrow> Balance list \<Rightarrow> BalanceWithUsd list \<Rightarrow> BalanceService
     \<Rightarrow> (error + BalanceWithUsd list) \<times> BalanceService" where
  "get_usd_balances_loop env eth_value [] balances_with_usd s = (Inr balances_with_usd, s)"
| "get_usd_balances_loop env eth_value (b # rest) balances_with_usd s =
     (case balance_usd_of env eth_value b s of
        (Inl e, s1) \<Rightarrow> (Inl e, s1)
      | (Inr usd, s1) \<Rightarrow>
          (case py_round4 usd of
             Inl e \<Rightarrow> (Inl e, s1)
           | Inr r \<Rightarrow>
               get_usd_balances_loop env eth_value rest
                 (balances_with_usd
                    @ [\<lparr>token_address = token_address b, token = token b, balance = balance b,
                         balance_usd = r\<rparr>]) s1))"

definition get_usd_balances ::
  "env \<Rightarrow> string \<Rightarrow> BalanceService \<Rightarrow> (error + BalanceWithUsd list) \<times> BalanceService" where
  "get_usd_balances env safe_address s =
     (case get_balances env safe_address s of
        (Inl e, s1) \<Rightarrow> (Inl e, s1)
      | (Inr balances, s1) \<Rightarrow>
          (case get_eth_usd_price env s1 of
             (Inl e, s2) \<Rightarrow> (Inl e, s2)
           | (Inr eth_value, s2) \<Rightarrow> get_usd_balances_loop env eth_value balances [] s2))"

section \<open>Notions used to state the properties\<close>

text \<open>
  The metadata the resolver answers for an address in state \<open>s\<close>, \<open>None\<close> for the
  unresolvable outcome.
\<close>

definition resolve :: "env \<Rightarrow> BalanceService \<Rightarrow> string \<Rightarrow> Erc20InfoWithLogo option" where
  "resolve env s a = fst (get_token_info env a s)"

text \<open>
  The filter policy of the balance aggregator in the words of the spec, entry by entry:
  the base-currency entry (null contract address) is always included, with null metadata;
  a token entry with \<open>raw_amount \<le> 0\<close> is dropped; a token entry with \<open>raw_amount > 0\<close>
  is dropped when its metadata is unresolvable and included with its metadata otherwise.
\<close>

definition spec_filter_entry :: "env \<Rightarrow> BalanceService \<Rightarrow> raw_balance \<Rightarrow> Balance option" where
  "spec_filter_entry env s b =
     (case raw_token_address b of
        None \<Rightarrow> Some \<lparr>token_address = None, token = None, balance = raw_amount b\<rparr>
      | Some a \<Rightarrow>
          if raw_amount b \<le> 0 then None
          else (case resolve env s a of
                  None \<Rightarrow> None
                | Some m \<Rightarrow> Some \<lparr>token_address = Some a, token = Some m, balance = raw_amount b\<rparr>))"

text \<open>The raw balances \<^verbatim>\<open>get_balances\<close> retrieves for an address.\<close>

definition retrieved :: "env \<Rightarrow> string \<Rightarrow> raw_balance list" where
  "retrieved env a = erc20_get_balances env a (erc20_tokens_used_by_address env a)"

text \<open>
  The service state when the loop of \<^verbatim>\<open>get_usd_balances\<close> reaches entry \<open>i\<close>, and the
  token price the chain answers there.
\<close>

definition loop_state :: "env \<Rightarrow> pyfloat option \<Rightarrow> Balance list \<Rightarrow> BalanceService \<Rightarrow> nat \<Rightarrow> BalanceService" where
  "loop_state env eth_value bs s i = snd (get_usd_balances_loop env eth_value (take i bs) [] s)"

definition token_price_at ::
  "env \<Rightarrow> pyfloat option \<Rightarrow> Balance list \<Rightarrow> BalanceService \<Rightarrow> nat \<Rightarrow> error + pyfloat" where
  "token_price_at env eth_value bs s i =
     fst (get_token_eth_value env (the (token_address (bs ! i))) (loop_state env eth_value bs s i))"

text \<open>The fields a valued balance shares with the balance it was built from.\<close>

definition balance_fields :: "'a Balance_scheme \<Rightarrow> string option \<times> Erc20InfoWithLogo option \<times> int" where
  "balance_fields b = (token_address b, token b, balance b)"

text \<open>
  Rounding to 4 fractional digits in the words of the spec, stated without the code's
  procedure: \<open>k\<close> is the integer nearest to \<open>y\<close>, the even one of the two when \<open>y\<close>
  lies half-way (round-half-to-even); a finite float \<open>a\<close> rounds to the float nearest
  to the decimal \<open>k / 10^4\<close> for the \<open>k\<close> nearest to \<open>a * 10^4\<close>; infinities and NaN have
  no digits to round.
\<close>

definition nearest_ties_even :: "rat \<Rightarrow> int \<Rightarrow> bool" where
  "nearest_ties_even y k \<longleftrightarrow>
     \<bar>y - of_int k\<bar> < 1 / 2 \<or> (\<bar>y - of_int k\<bar> = 1 / 2 \<and> even k)"

definition rounded_to_4_digits :: "pyfloat \<Rightarrow> pyfloat \<Rightarrow> bool" where
  "rounded_to_4_digits x r =
     (case x of
        Fin a \<Rightarrow>
          (\<exists>k\<in>{\<lfloor>a * 10 ^ 4\<rfloor>, \<lfloor>a * 10 ^ 4\<rfloor> + 1}.
             nearest_ties_even (a * 10 ^ 4) k \<and> r = fl64 (of_int k / 10 ^ 4))
      | PInf \<Rightarrow> r = PInf
      | NInf \<Rightarrow> r = NInf
      | NaN \<Rightarrow> r = NaN)"

text \<open>The insertion time of the entry a cache holds for a key.\<close>

definition cached_since :: "('k, 'v) TTLCache \<Rightarrow> 'k \<Rightarrow> rat option" where
  "cached_since c k = map_option insertion_time (find (\<lambda>e. entry_key e = k) (entries c))"

text \<open>The two price caches as \<^verbatim>\<open>__init__\<close> configures them: 2048 entries, 30 minutes.\<close>

definition configured :: "BalanceService \<Rightarrow> bool" where
  "configured s \<longleftrightarrow>
     maxsize (cache_eth_usd_price s) = 2048 \<and> ttl (cache_eth_usd_price s) = 60 * 30 \<and>
     maxsize (cache_token_eth_value s) = 2048 \<and> ttl (cache_token_eth_value s) = 60 * 30"

text \<open>An oracle answer that is a price or the oracle's own exception.\<close>

definition oracle_answer :: "error + pyfloat \<Rightarrow> bool" where
  "oracle_answer r = (case r of Inr p \<Rightarrow> True | Inl e \<Rightarrow> e = OracleException)"

text \<open>The price the oracle chain computes when it is consulted.\<close>

definition oracle_chain :: "env \<Rightarrow> string \<Rightarrow> pyfloat" where
  "oracle_chain env a =
     (case uniswap_get_price env a of
        Inr p \<Rightarrow> p
      | Inl e \<Rightarrow> (case kyber_get_price env a of Inr p \<Rightarrow> p | Inl e2 \<Rightarrow> Fin 0))"

text \<open>Whether the collaborators of a call were consulted: the calls a state adds to another.\<close>

definition new_calls :: "BalanceService \<Rightarrow> BalanceService \<Rightarrow> call list" where
  "new_calls s s' = drop (length (calls s)) (calls s')"

section \<open>A concrete deployment\<close>

text \<open>
  One account holding 1.5 units of base currency and 2.5 units of a 6-decimal token, a base
  price of 2000.0 USD at both tickers, and a token price of 0.001 (the float nearest to it)
  at the primary oracle.
\<close>

definition example_safe :: string where
  "example_safe = ''0x5aFE3855358E112B5647B952709E6165e1c1eEEe''"

definition example_token :: string where
  "example_token = ''0x6B175474E89094C44Da98b954EedeAC495271d0F''"

definition example_env :: env where
  "example_env =
     \<lparr>now = 0,
      isChecksumAddress = (\<lambda>a. a = example_safe),
      str_to_float = (\<lambda>t. if t = ''2000.0'' then Some (Fin 2000) else None),
      erc20_tokens_used_by_address = (\<lambda>a. [example_token]),
      erc20_get_balances =
        (\<lambda>a ts. \<lparr>raw_token_address = None, raw_amount = 1500000000000000000\<rparr>
                  # map (\<lambda>t. \<lparr>raw_token_address = Some t, raw_amount = 2500000\<rparr>) ts),
      erc20_get_info =
        (\<lambda>t. if t = example_token
              then Some \<lparr>info_name = ''Example'', info_symbol = ''EXM'', info_decimals = 6\<rparr>
              else None),
      uniswap_get_price = (\<lambda>t. Inr (fl64 (1 / 1000))),
      kyber_get_price = (\<lambda>t. Inl OracleException),
      kraken_ticker =
        \<lparr>ok = True,
         json_body =
           JObj [(''error'', JList []),
                 (''result'', JObj [(''XETHZUSD'', JObj [(''c'', JList [JStr ''2000.0'', JStr ''1''])])])]\<rparr>,
      binance_ticker =
        \<lparr>ok = True, json_body = JObj [(''mins'', JInt 5), (''price'', JStr ''2000.0'')]\<rparr>\<rparr>"

text \<open>A ticker answer with an error status, and the service with a base price cached at time 0.\<close>

definition failing_ticker :: http_response where
  "failing_ticker = \<lparr>ok = False, json_body = JObj [(''error'', JList [JStr ''EService:Unavailable'']), (''msg'', JStr ''unavailable'')]\<rparr>"

definition outage_env :: env where
  "outage_env = example_env\<lparr>kraken_ticker := failing_ticker, binance_ticker := failing_ticker\<rparr>"

definition warm_service :: BalanceService where
  "warm_service =
     BalanceService_init
       \<lparr>cache_eth_usd_price :=
          ttl_setitem (cache_eth_usd_price BalanceService_init) 0 () (Some (Fin 2000)),
        cache_token_eth_value :=
          ttl_setitem (cache_token_eth_value BalanceService_init) 0 example_token (Fin 5)\<rparr>"

text \<open>The deployment with a token-info lookup that fails for every address.\<close>

definition unresolvable_env :: env where
  "unresolvable_env = example_env\<lparr>erc20_get_info := (\<lambda>t. None)\<rparr>"

text \<open>
  The deployment with a primary ticker that answers with status 200 and a payload without
  the price: no \<^verbatim>\<open>result\<close> field at all, and a \<^verbatim>\<open>result\<close> field without any pair.
\<close>

definition missing_result_env :: env where
  "missing_result_env =
     example_env\<lparr>kraken_ticker := \<lparr>ok = True, json_body = JObj [(''error'', JList [])]\<rparr>\<rparr>"

definition empty_result_env :: env where
  "empty_result_env =
     example_env\<lparr>kraken_ticker :=
       \<lparr>ok = True, json_body = JObj [(''error'', JList []), (''result'', JObj [])]\<rparr>\<rparr>"

text \<open>
  The deployment with an empty base-currency balance and two more tokens: one whose
  token-info lookup fails and one the account no longer holds.
\<close>

definition unknown_token :: string where
  "unknown_token = ''0x1111111111111111111111111111111111111111''"

definition spent_token :: string where
  "spent_token = ''0x2222222222222222222222222222222222222222''"

definition mixed_env :: env where
  "mixed_env =
     example_env
       \<lparr>erc20_tokens_used_by_address := (\<lambda>a. [example_token, unknown_token, spent_token]),
        erc20_get_balances :=
          (\<lambda>a ts. [\<lparr>raw_token_address = None, raw_amount = 0\<rparr>,
                    \<lparr>raw_token_address = Some example_token, raw_amount = 2500000\<rparr>,
                    \<lparr>raw_token_address = Some unknown_token, raw_amount = 7\<rparr>,
                    \<lparr>raw_token_address = Some spent_token, raw_amount = 0\<rparr>])\<rparr>"

text \<open>The deployment with both oracles failing for every token.\<close>

definition illiquid_env :: env where
  "illiquid_env = example_env\<lparr>uniswap_get_price := (\<lambda>t. Inl OracleException)\<rparr>"

text \<open>
  The deployment with amounts that do not value to a round number: 1.23456789 units of base
  currency and 1.234567 units of the token.
\<close>

definition fraction_env :: env where
  "fraction_env =
     example_env
       \<lparr>erc20_get_balances :=
          (\<lambda>a ts. \<lparr>raw_token_address = None, raw_amount = 1234567890000000000\<rparr>
                    # map (\<lambda>t. \<lparr>raw_token_address = Some t, raw_amount = 1234567\<rparr>) ts)\<rparr>"

section \<open>Basic facts\<close>

lemma calls_did [simp]: "calls (did c s) = calls s @ [c]"
  and cache_token_info_did [simp]: "cache_token_info (did c s) = cache_token_info s"
  and cache_eth_usd_price_did [simp]: "cache_eth_usd_price (did c s) = cache_eth_usd_price s"
  and cache_token_eth_value_did [simp]: "cache_token_eth_value (did c s) = cache_token_eth_value s"
  by (simp_all add: did_def)

lemma init_sel:
  "cache_token_info BalanceService_init = Map.empty"
  "calls BalanceService_init = []"
  "entries (cache_eth_usd_price BalanceService_init) = []"
  "entries (cache_token_eth_value BalanceService_init) = []"
  "maxsize (cache_eth_usd_price BalanceService_init) = 2048"
  "maxsize (cache_token_eth_value BalanceService_init) = 2048"
  "ttl (cache_eth_usd_price BalanceService_init) = 1800"
  "ttl (cache_token_eth_value BalanceService_init) = 1800"
  by (simp_all add: BalanceService_init_def TTLCache_init_def)

lemma example_env_sel:
  "now example_env = 0"
  "isChecksumAddress example_env a = (a = example_safe)"
  "str_to_float example_env t = (if t = ''2000.0'' then Some (Fin 2000) else None)"
  "erc20_tokens_used_by_address example_env a = [example_token]"
  "erc20_get_balances example_env a ts =
     \<lparr>raw_token_address = None, raw_amount = 1500000000000000000\<rparr>
       # map (\<lambda>t. \<lparr>raw_token_address = Some t, raw_amount = 2500000\<rparr>) ts"
  "erc20_get_info example_env t =
     (if t = example_token
      then Some \<lparr>info_name = ''Example'', info_symbol = ''EXM'', info_decimals = 6\<rparr>
      else None)"
  "uniswap_get_price example_env t = Inr (fl64 (1 / 1000))"
  "kyber_get_price example_env t = Inl OracleException"
  by (simp_all add: example_env_def)

lemma example_env_tickers:
  "kraken_ticker example_env =
     \<lparr>ok = True,
      json_body =
        JObj [(''error'', JList []),
              (''result'', JObj [(''XETHZUSD'', JObj [(''c'', JList [JStr ''2000.0'', JStr ''1''])])])]\<rparr>"
  "binance_ticker example_env =
     \<lparr>ok = True, json_body = JObj [(''mins'', JInt 5), (''price'', JStr ''2000.0'')]\<rparr>"
  by (simp_all add: example_env_def)

lemma example_addresses: "example_token \<noteq> []" "example_safe \<noteq> []" "''0x'' \<noteq> example_safe"
  by (simp_all add: example_token_def example_safe_def)

lemma unresolvable_env_sel: "erc20_get_info unresolvable_env t = None"
  by (simp add: unresolvable_env_def)

section \<open>Address validation\<close>

lemma get_token_info_calls:
  "get_token_info env a s = (v, s') \<Longrightarrow> \<exists>cs. calls s' = calls s @ cs"
  by (auto simp: get_token_info_def get_token_info_wrapped_def split: option.splits)

lemma get_balances_loop_calls:
  "get_balances_loop env raw acc s = (bs, s') \<Longrightarrow> \<exists>cs. calls s' = calls s @ cs"
proof (induction raw arbitrary: acc s)
  case Nil
  then show ?case by simp
next
  case (Cons b rest)
  show ?case
  proof (cases "\<not> address_truthy (raw_token_address b)")
    case True
    with Cons show ?thesis by simp
  next
    case nt: False
    show ?thesis
    proof (cases "0 < raw_amount b")
      case False
      with nt Cons show ?thesis by simp
    next
      case True
      obtain tok s1 where g: "get_token_info env (the (raw_token_address b)) s = (tok, s1)"
        by (cases "get_token_info env (the (raw_token_address b)) s")
      from get_token_info_calls[OF g] obtain cs1 where c1: "calls s1 = calls s @ cs1" by blast
      from Cons.prems nt True g
      have "\<exists>acc'. get_balances_loop env rest acc' s1 = (bs, s')"
        by (auto split: if_splits)
      then obtain acc' where "get_balances_loop env rest acc' s1 = (bs, s')" by blast
      from Cons.IH[OF this] obtain cs2 where "calls s' = calls s1 @ cs2" by blast
      with c1 show ?thesis by simp
    qed
  qed
qed

text \<open>
  C9. The assertion on the address is the first statement of \<^verbatim>\<open>get_balances\<close>: an address
  that is not checksummed makes the call fail with \<^verbatim>\<open>AssertionError\<close> (the spec's
  \<open>InvalidAddress\<close>) and leaves the service as it was, with no collaborator called; a
  checksummed address never fails the validation: the call returns balances, and its first
  two collaborator calls are the token index and the balance retrieval.
\<close>

theorem get_balances_validates_address:
  "(\<not> isChecksumAddress env a \<longrightarrow>
      get_balances env a s = (Inl AssertionError, s)
      \<and> new_calls s (snd (get_balances env a s)) = [])
   \<and> (isChecksumAddress env a \<longrightarrow>
        (\<exists>bs s'. get_balances env a s = (Inr bs, s')
           \<and> take 2 (new_calls s s')
               = [Erc20TokensUsed a, Erc20GetBalances a (erc20_tokens_used_by_address env a)]))"
proof (intro conjI impI)
  assume "\<not> isChecksumAddress env a"
  then show "get_balances env a s = (Inl AssertionError, s)"
    and "new_calls s (snd (get_balances env a s)) = []"
    by (simp_all add: get_balances_def new_calls_def)
next
  assume v: "isChecksumAddress env a"
  let ?s2 = "did (Erc20GetBalances a (erc20_tokens_used_by_address env a)) (did (Erc20TokensUsed a) s)"
  obtain bs s' where
    l: "get_balances_loop env (erc20_get_balances env a (erc20_tokens_used_by_address env a)) [] ?s2
          = (bs, s')"
    by (cases "get_balances_loop env (erc20_get_balances env a (erc20_tokens_used_by_address env a)) [] ?s2")
  from get_balances_loop_calls[OF l] obtain cs where "calls s' = calls ?s2 @ cs" by blast
  then have "take 2 (new_calls s s')
               = [Erc20TokensUsed a, Erc20GetBalances a (erc20_tokens_used_by_address env a)]"
    by (simp add: new_calls_def)
  moreover have "get_balances env a s = (Inr bs, s')"
    using v l by (simp add: get_balances_def Let_def)
  ultimately show "\<exists>bs s'. get_balances env a s = (Inr bs, s')
           \<and> take 2 (new_calls s s')
               = [Erc20TokensUsed a, Erc20GetBalances a (erc20_tokens_used_by_address env a)]"
    by blast
qed

theorem get_balances_validates_address_witness:
  "get_balances example_env ''0x'' BalanceService_init = (Inl AssertionError, BalanceService_init)
   \<and> (\<exists>bs s'. get_balances example_env example_safe BalanceService_init = (Inr bs, s')
         \<and> take 2 (new_calls BalanceService_init s')
             = [Erc20TokensUsed example_safe, Erc20GetBalances example_safe [example_token]])"
  using get_balances_validates_address [of example_env "''0x''" BalanceService_init]
    get_balances_validates_address [of example_env example_safe BalanceService_init]
  by (simp add: example_env_sel example_addresses)

section \<open>Metadata cache\<close>

text \<open>
  C2, as the code has it. When the lookup for an address not yet in the metadata cache
  fails, \<^verbatim>\<open>get_token_info\<close> returns \<^verbatim>\<open>None\<close>, makes the one lookup call and stores
  \<^verbatim>\<open>None\<close> under the address, leaving every other entry as it was; from then on every
  call for the address, whatever the lookup would answer, returns \<^verbatim>\<open>None\<close> from the
  cache and leaves the service unchanged, so the lookup is not attempted again.
\<close>

theorem failed_resolution_is_cached:
  assumes "cache_token_info s a = None" and "erc20_get_info env a = None"
  shows "get_token_info env a s
           = (None, (did (Erc20GetInfo a) s)\<lparr>cache_token_info := (cache_token_info s)(a \<mapsto> None)\<rparr>)
         \<and> (\<forall>env' s'. cache_token_info s' = (cache_token_info s)(a \<mapsto> None)
                \<longrightarrow> get_token_info env' a s' = (None, s'))"
  using assms by (simp add: get_token_info_def get_token_info_wrapped_def)

theorem failed_resolution_is_cached_witness:
  "get_token_info unresolvable_env example_token BalanceService_init
     = (None, (did (Erc20GetInfo example_token) BalanceService_init)
                \<lparr>cache_token_info := Map.empty(example_token \<mapsto> None)\<rparr>)
   \<and> get_token_info example_env example_token
        ((did (Erc20GetInfo example_token) BalanceService_init)
           \<lparr>cache_token_info := Map.empty(example_token \<mapsto> None)\<rparr>)
       = (None, (did (Erc20GetInfo example_token) BalanceService_init)
                  \<lparr>cache_token_info := Map.empty(example_token \<mapsto> None)\<rparr>)"
  using failed_resolution_is_cached [of BalanceService_init example_token unresolvable_env]
  by (simp add: init_sel unresolvable_env_sel)

text \<open>
  The claim as the spec states it fails: after a failed resolution on the fresh service the
  metadata cache has changed (it holds \<^verbatim>\<open>None\<close> for the token), and a second call, made
  when the lookup would succeed, still answers \<^verbatim>\<open>None\<close> without making the lookup.
\<close>

theorem no_negative_caching_counterexample:
  "fst (get_token_info unresolvable_env example_token BalanceService_init) = None
   \<and> cache_token_info BalanceService_init example_token = None
   \<and> cache_token_info (snd (get_token_info unresolvable_env example_token BalanceService_init))
        example_token = Some None
   \<and> erc20_get_info example_env example_token \<noteq> None
   \<and> get_token_info example_env example_token
        (snd (get_token_info unresolvable_env example_token BalanceService_init))
      = (None, snd (get_token_info unresolvable_env example_token BalanceService_init))"
  by (simp add: get_token_info_def get_token_info_wrapped_def init_sel unresolvable_env_sel
        example_env_sel)

section \<open>Evaluating the concrete deployment\<close>

lemma floor_rat_numeral_div:
  "\<lfloor>(numeral a :: rat) / numeral b\<rfloor> = numeral a div numeral b"
  using floor_divide_of_int_eq [of "numeral a" "numeral b", where ?'a = rat] by simp

lemma ceiling_rat_numeral_div:
  "\<lceil>(numeral a :: rat) / numeral b\<rceil> = - (- numeral a div numeral b)"
  using ceiling_divide_eq_div [of "numeral a" "numeral b", where ?'a = rat] by simp

lemmas float_eval =
  fl64_def round_magnitude_def ulp_exponent_def ilog2_def bit_length.simps pow2_def
  round_half_even_def floor_rat_numeral_div ceiling_rat_numeral_div

lemma fl64_vals:
  "fl64 (3 / 2) = Fin (3 / 2)" "fl64 3000 = Fin 3000" "fl64 (5 / 2) = Fin (5 / 2)"
  "fl64 2 = Fin 2" "fl64 5 = Fin 5" "fl64 2000 = Fin 2000" "fl64 10000 = Fin 10000"
  "fl64 25000 = Fin 25000" "fl64 0 = Fin 0"
  by (simp_all add: float_eval)

lemma fl64_milli: "fl64 (1 / 1000) = Fin (1152921504606847 / 2 ^ 60)"
  by (simp add: float_eval)

lemma example_arith:
  "int_truediv 1500000000000000000 1000000000000000000 = Inr (Fin (3 / 2))"
  "int_truediv 2500000 1000000 = Inr (Fin (5 / 2))"
  "float_mul (Fin 2000) (fl64 (1 / 1000)) = Fin 2"
  "py_round4 (Fin 3000) = Inr (Fin 3000)"
  "py_round4 (Fin 5) = Inr (Fin 5)"
  "py_round4 (Fin 25000) = Inr (Fin 25000)"
  "py_round4 (Fin 0) = Inr (Fin 0)"
  "float_truthy (fl64 (1 / 1000))"
  "float_truthy (Fin 5)"
  "fl64 (1 / 1000) \<noteq> Fin 5"
  by (simp_all add: int_truediv_def py_round4_def float_truthy_def fl64_milli)
     (simp_all add: float_eval)


lemma mixed_env_sel:
  "isChecksumAddress mixed_env a = (a = example_safe)"
  "erc20_tokens_used_by_address mixed_env a = [example_token, unknown_token, spent_token]"
  "erc20_get_balances mixed_env a ts =
     [\<lparr>raw_token_address = None, raw_amount = 0\<rparr>,
      \<lparr>raw_token_address = Some example_token, raw_amount = 2500000\<rparr>,
      \<lparr>raw_token_address = Some unknown_token, raw_amount = 7\<rparr>,
      \<lparr>raw_token_address = Some spent_token, raw_amount = 0\<rparr>]"
  "erc20_get_info mixed_env t =
     (if t = example_token
      then Some \<lparr>info_name = ''Example'', info_symbol = ''EXM'', info_decimals = 6\<rparr>
      else None)"
  by (simp_all add: mixed_env_def example_env_def)

lemma example_tokens_distinct:
  "unknown_token \<noteq> example_token" "spent_token \<noteq> example_token"
  "unknown_token \<noteq> []" "spent_token \<noteq> []"
  by (simp_all add: unknown_token_def spent_token_def example_token_def)

lemma kraken_example: "kraken_outcome example_env = Inr (Some (Fin 2000))"
  by (simp add: kraken_outcome_def example_env_tickers example_env_sel and_then_def
        except_ValueError_def seq_index_def float_truthy_def)

lemma binance_example: "binance_outcome example_env = Inr (Some (Fin 2000))"
  by (simp add: binance_outcome_def example_env_tickers example_env_sel and_then_def
        except_ValueError_def float_truthy_def)



lemma kraken_missing_result: "kraken_outcome missing_result_env = Inl KeyError"
  by (simp add: kraken_outcome_def missing_result_env_def and_then_def except_ValueError_def)

lemma kraken_empty_result: "kraken_outcome empty_result_env = Inr None"
  by (simp add: kraken_outcome_def empty_result_env_def and_then_def except_ValueError_def)

lemma binance_missing_result: "binance_outcome missing_result_env = Inr (Some (Fin 2000))"
proof -
  have "binance_ticker missing_result_env
          = \<lparr>ok = True, json_body = JObj [(''mins'', JInt 5), (''price'', JStr ''2000.0'')]\<rparr>"
    and "\<And>t. str_to_float missing_result_env t
               = (if t = ''2000.0'' then Some (Fin 2000) else None)"
    by (simp_all add: missing_result_env_def example_env_def)
  then show ?thesis
    by (simp add: binance_outcome_def and_then_def except_ValueError_def float_truthy_def)
qed

section \<open>Price caches\<close>

lemma find_append_none:
  "(\<And>x. x \<in> set xs \<Longrightarrow> \<not> P x) \<Longrightarrow> find P (xs @ ys) = find P ys"
  by (induction xs) auto

lemma ttl_setitem_config [simp]:
  "maxsize (ttl_setitem c t k v) = maxsize c" "ttl (ttl_setitem c t k v) = ttl c"
  by (simp_all add: ttl_setitem_def Let_def)

lemma ttl_setitem_find:
  assumes "0 < maxsize c"
  shows "find (\<lambda>e. entry_key e = k) (entries (ttl_setitem c t k v))
           = Some \<lparr>entry_key = k, entry_value = v, insertion_time = t\<rparr>"
proof -
  let ?others = "filter (\<lambda>e. entry_key e \<noteq> k) (filter (\<lambda>e. \<not> expired (ttl c) t e) (entries c))"
  let ?kept = "drop (Suc (length ?others) - maxsize c) ?others"
  have "\<And>x. x \<in> set ?kept \<Longrightarrow> \<not> entry_key x = k"
    by (auto dest: in_set_dropD)
  then have "find (\<lambda>e. entry_key e = k)
               (?kept @ [\<lparr>entry_key = k, entry_value = v, insertion_time = t\<rparr>])
             = find (\<lambda>e. entry_key e = k) [\<lparr>entry_key = k, entry_value = v, insertion_time = t\<rparr>]"
    by (rule find_append_none)
  with assms show ?thesis
    by (simp add: ttl_setitem_def Let_def)
qed

lemma ttl_hit_window:
  assumes "ttl_getitem c t k = Some v"
  shows "\<exists>t0. cached_since c k = Some t0
           \<and> (\<forall>t'. t' - t0 < ttl c \<longrightarrow> ttl_getitem c t' k = Some v)"
  using assms
  by (auto simp: ttl_getitem_def cached_since_def expired_def split: option.splits if_splits)

lemma ttl_set_window:
  assumes "0 < maxsize c"
  shows "cached_since (ttl_setitem c t k v) k = Some t
           \<and> (\<forall>t'. t' - t < ttl c \<longrightarrow> ttl_getitem (ttl_setitem c t k v) t' k = Some v)"
  using ttl_setitem_find[OF assms, of k t v]
  by (simp add: cached_since_def ttl_getitem_def expired_def)

lemma wrapped_eth_frame:
  assumes "get_eth_usd_price_wrapped env s = (r, s')"
  shows "cache_eth_usd_price s' = cache_eth_usd_price s"
    and "cache_token_eth_value s' = cache_token_eth_value s"
    and "cache_token_info s' = cache_token_info s"
  using assms
  by (auto simp: get_eth_usd_price_wrapped_def get_eth_usd_price_kraken_def
        get_eth_usd_price_binance_def split: sum.splits if_splits)

lemma wrapped_token_frame:
  assumes "get_token_eth_value_wrapped env a s = (r, s')"
  shows "cache_eth_usd_price s' = cache_eth_usd_price s"
    and "cache_token_eth_value s' = cache_token_eth_value s"
    and "cache_token_info s' = cache_token_info s"
  using assms
  by (auto simp: get_token_eth_value_wrapped_def split: sum.splits if_splits)

lemma eth_price_window:
  assumes cfg: "0 < maxsize (cache_eth_usd_price s)"
    and r: "get_eth_usd_price env s = (Inr p, sp)"
  shows "\<exists>t0. cached_since (cache_eth_usd_price sp) () = Some t0
           \<and> (ttl_getitem (cache_eth_usd_price s) (now env) () = None \<longrightarrow> t0 = now env)
           \<and> (\<forall>env'. now env' - t0 < ttl (cache_eth_usd_price s)
                 \<longrightarrow> get_eth_usd_price env' sp = (Inr p, sp))"
proof (cases "ttl_getitem (cache_eth_usd_price s) (now env) ()")
  case (Some v)
  with r have eq: "v = p" "sp = s" by (simp_all add: get_eth_usd_price_def)
  from ttl_hit_window[OF Some] obtain t0 where
    t0: "cached_since (cache_eth_usd_price s) () = Some t0"
        "\<forall>t'. t' - t0 < ttl (cache_eth_usd_price s)
           \<longrightarrow> ttl_getitem (cache_eth_usd_price s) t' () = Some v"
    by blast
  have "\<forall>env'. now env' - t0 < ttl (cache_eth_usd_price s)
                 \<longrightarrow> get_eth_usd_price env' s = (Inr v, s)"
    using t0(2) by (simp add: get_eth_usd_price_def)
  with t0(1) Some eq show ?thesis by auto
next
  case None
  obtain r' s' where w: "get_eth_usd_price_wrapped env s = (r', s')"
    by (cases "get_eth_usd_price_wrapped env s")
  from r None w have r': "r' = Inr p"
    and sp: "sp = s'\<lparr>cache_eth_usd_price := ttl_setitem (cache_eth_usd_price s') (now env) () p\<rparr>"
    by (auto simp: get_eth_usd_price_def split: sum.splits)
  have c: "cache_eth_usd_price s' = cache_eth_usd_price s"
    using wrapped_eth_frame(1)[OF w] .
  from ttl_set_window[OF cfg, of "now env" "()" p]
  have win: "cached_since (ttl_setitem (cache_eth_usd_price s) (now env) () p) () = Some (now env)"
    "\<forall>t'. t' - now env < ttl (cache_eth_usd_price s) \<longrightarrow>
        ttl_getitem (ttl_setitem (cache_eth_usd_price s) (now env) () p) t' () = Some p"
    by blast+
  have "\<forall>env'. now env' - now env < ttl (cache_eth_usd_price s)
                 \<longrightarrow> get_eth_usd_price env' sp = (Inr p, sp)"
    using win(2) by (simp add: get_eth_usd_price_def sp c)
  with win(1) None show ?thesis by (auto simp: sp c)
qed

lemma token_price_window:
  assumes cfg: "0 < maxsize (cache_token_eth_value s)"
    and r: "get_token_eth_value env a s = (Inr p, sp)"
  shows "\<exists>t0. cached_since (cache_token_eth_value sp) a = Some t0
           \<and> (ttl_getitem (cache_token_eth_value s) (now env) a = None \<longrightarrow> t0 = now env)
           \<and> (\<forall>env'. now env' - t0 < ttl (cache_token_eth_value s)
                 \<longrightarrow> get_token_eth_value env' a sp = (Inr p, sp))"
proof (cases "ttl_getitem (cache_token_eth_value s) (now env) a")
  case (Some v)
  with r have eq: "v = p" "sp = s" by (simp_all add: get_token_eth_value_def)
  from ttl_hit_window[OF Some] obtain t0 where
    t0: "cached_since (cache_token_eth_value s) a = Some t0"
        "\<forall>t'. t' - t0 < ttl (cache_token_eth_value s)
           \<longrightarrow> ttl_getitem (cache_token_eth_value s) t' a = Some v"
    by blast
  have "\<forall>env'. now env' - t0 < ttl (cache_token_eth_value s)
                 \<longrightarrow> get_token_eth_value env' a s = (Inr v, s)"
    using t0(2) by (simp add: get_token_eth_value_def)
  with t0(1) Some eq show ?thesis by auto
next
  case None
  obtain r' s' where w: "get_token_eth_value_wrapped env a s = (r', s')"
    by (cases "get_token_eth_value_wrapped env a s")
  from r None w have r': "r' = Inr p"
    and sp: "sp = s'\<lparr>cache_token_eth_value := ttl_setitem (cache_token_eth_value s') (now env) a p\<rparr>"
    by (auto simp: get_token_eth_value_def split: sum.splits)
  have c: "cache_token_eth_value s' = cache_token_eth_value s"
    using wrapped_token_frame(2)[OF w] .
  from ttl_set_window[OF cfg, of "now env" a p]
  have win: "cached_since (ttl_setitem (cache_token_eth_value s) (now env) a p) a = Some (now env)"
    "\<forall>t'. t' - now env < ttl (cache_token_eth_value s) \<longrightarrow>
        ttl_getitem (ttl_setitem (cache_token_eth_value s) (now env) a p) t' a = Some p"
    by blast+
  have "\<forall>env'. now env' - now env < ttl (cache_token_eth_value s)
                 \<longrightarrow> get_token_eth_value env' a sp = (Inr p, sp)"
    using win(2) by (simp add: get_token_eth_value_def sp c)
  with win(1) None show ?thesis by (auto simp: sp c)
qed

text \<open>
  C8. On a service configured as \<^verbatim>\<open>__init__\<close> does, a call of a price operation that
  returns a price leaves an entry for its key in the price cache, inserted at that call when
  the price was computed; every later call made less than 30 minutes after the insertion
  returns the identical price and leaves the service as it is, whatever the sources answer
  then, and a call that returns anything else is made at or after the expiry. This holds
  for the base-currency price and, for every address, for the token price.
\<close>

theorem prices_stable_within_ttl:
  assumes "configured s"
  shows "(get_eth_usd_price env s = (Inr p, sp) \<longrightarrow>
            (\<exists>t0. cached_since (cache_eth_usd_price sp) () = Some t0
               \<and> (ttl_getitem (cache_eth_usd_price s) (now env) () = None \<longrightarrow> t0 = now env)
               \<and> (\<forall>env'. now env' - t0 < 60 * 30 \<longrightarrow> get_eth_usd_price env' sp = (Inr p, sp))
               \<and> (\<forall>env'. fst (get_eth_usd_price env' sp) \<noteq> Inr p \<longrightarrow> 60 * 30 \<le> now env' - t0)))
       \<and> (get_token_eth_value env a s = (Inr q, sq) \<longrightarrow>
            (\<exists>t0. cached_since (cache_token_eth_value sq) a = Some t0
               \<and> (ttl_getitem (cache_token_eth_value s) (now env) a = None \<longrightarrow> t0 = now env)
               \<and> (\<forall>env'. now env' - t0 < 60 * 30 \<longrightarrow> get_token_eth_value env' a sq = (Inr q, sq))
               \<and> (\<forall>env'. fst (get_token_eth_value env' a sq) \<noteq> Inr q \<longrightarrow> 60 * 30 \<le> now env' - t0)))"
proof (intro conjI impI)
  assume r: "get_eth_usd_price env s = (Inr p, sp)"
  from assms have m: "0 < maxsize (cache_eth_usd_price s)"
    and t: "ttl (cache_eth_usd_price s) = 60 * 30"
    by (simp_all add: configured_def)
  from eth_price_window[OF m r] obtain t0 where
    a: "cached_since (cache_eth_usd_price sp) () = Some t0"
    and b: "ttl_getitem (cache_eth_usd_price s) (now env) () = None \<longrightarrow> t0 = now env"
    and c: "\<forall>env'. now env' - t0 < 60 * 30 \<longrightarrow> get_eth_usd_price env' sp = (Inr p, sp)"
    unfolding t by auto
  have d: "\<forall>env'. fst (get_eth_usd_price env' sp) \<noteq> Inr p \<longrightarrow> 60 * 30 \<le> now env' - t0"
  proof (intro allI impI)
    fix env' assume n: "fst (get_eth_usd_price env' sp) \<noteq> Inr p"
    show "60 * 30 \<le> now env' - t0"
    proof (rule ccontr)
      assume "\<not> 60 * 30 \<le> now env' - t0"
      then have "now env' - t0 < 60 * 30" by simp
      with c have "get_eth_usd_price env' sp = (Inr p, sp)" by blast
      with n show False by simp
    qed
  qed
  show "\<exists>t0. cached_since (cache_eth_usd_price sp) () = Some t0
               \<and> (ttl_getitem (cache_eth_usd_price s) (now env) () = None \<longrightarrow> t0 = now env)
               \<and> (\<forall>env'. now env' - t0 < 60 * 30 \<longrightarrow> get_eth_usd_price env' sp = (Inr p, sp))
               \<and> (\<forall>env'. fst (get_eth_usd_price env' sp) \<noteq> Inr p \<longrightarrow> 60 * 30 \<le> now env' - t0)"
    using a b c d by - (rule exI[of _ t0], simp)
next
  assume r: "get_token_eth_value env a s = (Inr q, sq)"
  from assms have m: "0 < maxsize (cache_token_eth_value s)"
    and t: "ttl (cache_token_eth_value s) = 60 * 30"
    by (simp_all add: configured_def)
  from token_price_window[OF m r] obtain t0 where
    a: "cached_since (cache_token_eth_value sq) a = Some t0"
    and b: "ttl_getitem (cache_token_eth_value s) (now env) a = None \<longrightarrow> t0 = now env"
    and c: "\<forall>env'. now env' - t0 < 60 * 30 \<longrightarrow> get_token_eth_value env' a sq = (Inr q, sq)"
    unfolding t by auto
  have d: "\<forall>env'. fst (get_token_eth_value env' a sq) \<noteq> Inr q \<longrightarrow> 60 * 30 \<le> now env' - t0"
  proof (intro allI impI)
    fix env' assume n: "fst (get_token_eth_value env' a sq) \<noteq> Inr q"
    show "60 * 30 \<le> now env' - t0"
    proof (rule ccontr)
      assume "\<not> 60 * 30 \<le> now env' - t0"
      then have "now env' - t0 < 60 * 30" by simp
      with c have "get_token_eth_value env' a sq = (Inr q, sq)" by blast
      with n show False by simp
    qed
  qed
  show "\<exists>t0. cached_since (cache_token_eth_value sq) a = Some t0
               \<and> (ttl_getitem (cache_token_eth_value s) (now env) a = None \<longrightarrow> t0 = now env)
               \<and> (\<forall>env'. now env' - t0 < 60 * 30 \<longrightarrow> get_token_eth_value env' a sq = (Inr q, sq))
               \<and> (\<forall>env'. fst (get_token_eth_value env' a sq) \<noteq> Inr q \<longrightarrow> 60 * 30 \<le> now env' - t0)"
    using a b c d by - (rule exI[of _ t0], simp)
qed

lemma example_eth_price:
  "fst (get_eth_usd_price example_env BalanceService_init) = Inr (Some (Fin 2000))"
  by (simp add: get_eth_usd_price_def ttl_getitem_def init_sel get_eth_usd_price_wrapped_def
        get_eth_usd_price_kraken_def kraken_example)

lemma example_token_price:
  "fst (get_token_eth_value example_env example_token BalanceService_init) = Inr (fl64 (1 / 1000))"
  by (simp add: get_token_eth_value_def ttl_getitem_def init_sel get_token_eth_value_wrapped_def
        example_env_sel)

lemma init_configured: "configured BalanceService_init"
  by (simp add: configured_def init_sel)

lemma init_misses:
  "ttl_getitem (cache_eth_usd_price BalanceService_init) t () = None"
  "ttl_getitem (cache_token_eth_value BalanceService_init) t a = None"
  by (simp_all add: ttl_getitem_def init_sel)

theorem prices_stable_within_ttl_witness:
  "get_eth_usd_price (outage_env\<lparr>now := 1799\<rparr>)
      (snd (get_eth_usd_price example_env BalanceService_init))
     = (Inr (Some (Fin 2000)), snd (get_eth_usd_price example_env BalanceService_init))
   \<and> get_token_eth_value (example_env\<lparr>now := 1799, uniswap_get_price := (\<lambda>t. Inr (Fin 7))\<rparr>)
        example_token (snd (get_token_eth_value example_env example_token BalanceService_init))
     = (Inr (fl64 (1 / 1000)),
        snd (get_token_eth_value example_env example_token BalanceService_init))"
proof -
  let ?sp = "snd (get_eth_usd_price example_env BalanceService_init)"
  let ?sq = "snd (get_token_eth_value example_env example_token BalanceService_init)"
  have e: "get_eth_usd_price example_env BalanceService_init = (Inr (Some (Fin 2000)), ?sp)"
    using example_eth_price by (metis prod.collapse)
  have k: "get_token_eth_value example_env example_token BalanceService_init
             = (Inr (fl64 (1 / 1000)), ?sq)"
    using example_token_price by (metis prod.collapse)
  note w = prices_stable_within_ttl [OF init_configured,
      where env = example_env and p = "Some (Fin 2000)" and sp = ?sp
        and a = example_token and q = "fl64 (1 / 1000)" and sq = ?sq]
  from w e obtain t0 where
    "t0 = now example_env"
    "\<forall>env'. now env' - t0 < 60 * 30 \<longrightarrow> get_eth_usd_price env' ?sp = (Inr (Some (Fin 2000)), ?sp)"
    by (auto simp: init_misses)
  then have 1: "get_eth_usd_price (outage_env\<lparr>now := 1799\<rparr>) ?sp = (Inr (Some (Fin 2000)), ?sp)"
    by (simp add: example_env_sel)
  from w k obtain t1 where
    "t1 = now example_env"
    "\<forall>env'. now env' - t1 < 60 * 30
        \<longrightarrow> get_token_eth_value env' example_token ?sq = (Inr (fl64 (1 / 1000)), ?sq)"
    by (auto simp: init_misses)
  then have 2: "get_token_eth_value
                  (example_env\<lparr>now := 1799, uniswap_get_price := (\<lambda>t. Inr (Fin 7))\<rparr>)
                  example_token ?sq = (Inr (fl64 (1 / 1000)), ?sq)"
    by (simp add: example_env_sel)
  from 1 2 show ?thesis by simp
qed

section \<open>Filter policy of the balance aggregator\<close>

lemma resolve_alt:
  "resolve env s a =
     (case cache_token_info s a of
        Some v \<Rightarrow> v
      | None \<Rightarrow>
          (case erc20_get_info env a of
             Some i \<Rightarrow> Some (Erc20InfoWithLogo_init a (info_name i) (info_symbol i) (info_decimals i))
           | None \<Rightarrow> None))"
  by (simp add: resolve_def get_token_info_def get_token_info_wrapped_def split: option.splits)

lemma resolve_did [simp]: "resolve env (did c s) a = resolve env s a"
  by (simp add: resolve_alt)

lemma get_token_info_resolve:
  assumes "get_token_info env a s = (v, s1)"
  shows "v = resolve env s a" and "resolve env s1 a' = resolve env s a'"
proof -
  show "v = resolve env s a" using assms by (simp add: resolve_def)
  show "resolve env s1 a' = resolve env s a'"
    using assms
    by (auto simp: resolve_alt get_token_info_def get_token_info_wrapped_def
          split: option.splits if_splits)
qed

lemma spec_filter_entry_cong:
  assumes "\<And>a. resolve env s1 a = resolve env s a"
  shows "spec_filter_entry env s1 = spec_filter_entry env s"
  by (rule ext) (simp add: spec_filter_entry_def assms split: option.splits)

lemma get_balances_loop_filter:
  assumes "\<forall>b\<in>set raw. raw_token_address b \<noteq> Some []"
  shows "fst (get_balances_loop env raw acc s) = acc @ List.map_filter (spec_filter_entry env s) raw"
  using assms
proof (induction raw arbitrary: acc s)
  case Nil
  then show ?case by simp
next
  case (Cons b rest)
  then have ne: "raw_token_address b \<noteq> Some []"
    and rest: "\<forall>b\<in>set rest. raw_token_address b \<noteq> Some []" by simp_all
  show ?case
  proof (cases "raw_token_address b")
    case None
    then have sfe: "spec_filter_entry env s b
                      = Some \<lparr>token_address = None, token = None, balance = raw_amount b\<rparr>"
      by (simp add: spec_filter_entry_def)
    from None show ?thesis
      using Cons.IH[OF rest] by (simp add: sfe)
  next
    case (Some a)
    with ne have a: "a \<noteq> []" by simp
    show ?thesis
    proof (cases "0 < raw_amount b")
      case False
      with Some have sfe: "spec_filter_entry env s b = None"
        by (simp add: spec_filter_entry_def)
      from False Some a show ?thesis
        using Cons.IH[OF rest] by (simp add: sfe)
    next
      case True
      obtain tok s1 where g: "get_token_info env a s = (tok, s1)"
        by (cases "get_token_info env a s")
      have tok: "resolve env s a = tok" by (rule get_token_info_resolve(1)[OF g, symmetric])
      have "spec_filter_entry env s1 = spec_filter_entry env s"
        by (rule spec_filter_entry_cong) (rule get_token_info_resolve(2)[OF g])
      then have ih: "\<And>acc. fst (get_balances_loop env rest acc s1)
                      = acc @ List.map_filter (spec_filter_entry env s) rest"
        using Cons.IH[OF rest, of _ s1] by simp
      show ?thesis
      proof (cases tok)
        case None
        with Some True tok have sfe: "spec_filter_entry env s b = None"
          by (simp add: spec_filter_entry_def)
        from None Some a True g show ?thesis
          by (simp add: ih sfe)
      next
        case (Some m)
        with \<open>raw_token_address b = Some a\<close> True tok
        have sfe: "spec_filter_entry env s b
                     = Some \<lparr>token_address = Some a, token = Some m, balance = raw_amount b\<rparr>"
          by (simp add: spec_filter_entry_def)
        from Some \<open>raw_token_address b = Some a\<close> a True g show ?thesis
          by (simp add: ih sfe)
      qed
    qed
  qed
qed

text \<open>
  C5. For a checksummed address and raw balances whose token addresses are not empty,
  \<^verbatim>\<open>get_balances\<close> returns exactly the entries the filter policy of the spec keeps, in the
  order of retrieval: the base-currency entry always, with null metadata and whatever
  amount; a token entry only when its amount is positive and its metadata resolves, with
  that metadata.
\<close>

theorem get_balances_applies_filter_policy:
  assumes "isChecksumAddress env a"
    and "\<forall>b\<in>set (retrieved env a). raw_token_address b \<noteq> Some []"
  shows "fst (get_balances env a s)
           = Inr (List.map_filter (spec_filter_entry env s) (retrieved env a))"
proof -
  let ?s2 = "did (Erc20GetBalances a (erc20_tokens_used_by_address env a)) (did (Erc20TokensUsed a) s)"
  have "spec_filter_entry env ?s2 = spec_filter_entry env s"
    by (rule spec_filter_entry_cong) simp
  then have "fst (get_balances_loop env (retrieved env a) [] ?s2)
          = List.map_filter (spec_filter_entry env s) (retrieved env a)"
    using get_balances_loop_filter[OF assms(2), of env "[]" ?s2] by simp
  then show ?thesis
    using assms(1) by (simp add: get_balances_def Let_def retrieved_def case_prod_unfold)
qed

lemma mixed_retrieved:
  "retrieved mixed_env example_safe =
     [\<lparr>raw_token_address = None, raw_amount = 0\<rparr>,
      \<lparr>raw_token_address = Some example_token, raw_amount = 2500000\<rparr>,
      \<lparr>raw_token_address = Some unknown_token, raw_amount = 7\<rparr>,
      \<lparr>raw_token_address = Some spent_token, raw_amount = 0\<rparr>]"
  by (simp add: retrieved_def mixed_env_sel)

lemma mixed_policy:
  "List.map_filter (spec_filter_entry mixed_env BalanceService_init) (retrieved mixed_env example_safe)
     = [\<lparr>token_address = None, token = None, balance = 0\<rparr>,
        \<lparr>token_address = Some example_token,
         token = Some (Erc20InfoWithLogo_init example_token ''Example'' ''EXM'' 6),
         balance = 2500000\<rparr>]"
  by (simp add: mixed_retrieved spec_filter_entry_def resolve_alt init_sel mixed_env_sel
        example_tokens_distinct)

theorem get_balances_applies_filter_policy_witness:
  "fst (get_balances mixed_env example_safe BalanceService_init)
     = Inr [\<lparr>token_address = None, token = None, balance = 0\<rparr>,
            \<lparr>token_address = Some example_token,
             token = Some (Erc20InfoWithLogo_init example_token ''Example'' ''EXM'' 6),
             balance = 2500000\<rparr>]"
proof -
  have v: "isChecksumAddress mixed_env example_safe"
    by (simp add: mixed_env_sel)
  have w: "\<forall>b\<in>set (retrieved mixed_env example_safe). raw_token_address b \<noteq> Some []"
    by (simp add: mixed_retrieved example_addresses example_tokens_distinct)
  show ?thesis
    using get_balances_applies_filter_policy [OF v w, of BalanceService_init]
    by (simp only: mixed_policy)
qed

section \<open>Token price chain\<close>

lemma warm_sel:
  "entries (cache_eth_usd_price warm_service)
     = [\<lparr>entry_key = (), entry_value = Some (Fin 2000), insertion_time = 0\<rparr>]"
  "entries (cache_token_eth_value warm_service)
     = [\<lparr>entry_key = example_token, entry_value = Fin 5, insertion_time = 0\<rparr>]"
  "ttl (cache_eth_usd_price warm_service) = 1800"
  "ttl (cache_token_eth_value warm_service) = 1800"
  "maxsize (cache_eth_usd_price warm_service) = 2048"
  "maxsize (cache_token_eth_value warm_service) = 2048"
  "cache_token_info warm_service = Map.empty"
  "calls warm_service = []"
  by (simp_all add: warm_service_def ttl_setitem_def init_sel)

lemma new_calls_did [simp]:
  "new_calls s (did c s) = [c]" "new_calls s (did c' (did c s)) = [c, c']" "new_calls s s = []"
  by (simp_all add: new_calls_def)

lemma new_calls_cache_update [simp]:
  "new_calls s (s'\<lparr>cache_token_eth_value := c\<rparr>) = new_calls s s'"
  "new_calls s (s'\<lparr>cache_eth_usd_price := d\<rparr>) = new_calls s s'"
  "new_calls s (s'\<lparr>cache_token_info := i\<rparr>) = new_calls s s'"
  by (simp_all add: new_calls_def)

text \<open>
  C4, as the code has it. When each oracle answers with a price or \<^verbatim>\<open>OracleException\<close>,
  \<^verbatim>\<open>get_token_eth_value\<close> never raises. With an unexpired cached price for the address it
  returns that price and consults no oracle; otherwise it returns the primary oracle's
  price when that succeeds, else the secondary oracle's, else exactly 0.
\<close>

theorem token_price_chain_with_cache:
  assumes "oracle_answer (uniswap_get_price env a)" and "oracle_answer (kyber_get_price env a)"
  shows "\<exists>p s'. get_token_eth_value env a s = (Inr p, s')
           \<and> (case ttl_getitem (cache_token_eth_value s) (now env) a of
                 Some v \<Rightarrow> p = v \<and> s' = s
               | None \<Rightarrow>
                   p = oracle_chain env a
                   \<and> (case uniswap_get_price env a of
                         Inr u \<Rightarrow> p = u \<and> new_calls s s' = [UniswapGetPrice a]
                       | Inl e \<Rightarrow>
                           new_calls s s' = [UniswapGetPrice a, KyberGetPrice a]
                           \<and> (case kyber_get_price env a of
                                 Inr k \<Rightarrow> p = k
                               | Inl e2 \<Rightarrow> p = Fin 0)))"
  using assms
  by (auto simp: get_token_eth_value_def get_token_eth_value_wrapped_def oracle_answer_def
        oracle_chain_def split: option.splits sum.splits)

lemma warm_hits:
  "ttl_getitem (cache_token_eth_value warm_service) 0 example_token = Some (Fin 5)"
  "ttl_getitem (cache_eth_usd_price warm_service) 0 () = Some (Some (Fin 2000))"
  by (simp_all add: ttl_getitem_def warm_sel expired_def)

theorem token_price_chain_with_cache_witness:
  "fst (get_token_eth_value example_env example_token BalanceService_init) = Inr (fl64 (1 / 1000))
   \<and> new_calls BalanceService_init
        (snd (get_token_eth_value example_env example_token BalanceService_init))
       = [UniswapGetPrice example_token]
   \<and> get_token_eth_value example_env example_token warm_service = (Inr (Fin 5), warm_service)"
proof -
  have o: "oracle_answer (uniswap_get_price example_env example_token)"
    "oracle_answer (kyber_get_price example_env example_token)"
    by (simp_all add: oracle_answer_def example_env_sel)
  from token_price_chain_with_cache [OF o, of BalanceService_init]
  have "fst (get_token_eth_value example_env example_token BalanceService_init)
          = Inr (fl64 (1 / 1000))
        \<and> new_calls BalanceService_init
             (snd (get_token_eth_value example_env example_token BalanceService_init))
            = [UniswapGetPrice example_token]"
    by (auto simp: init_misses example_env_sel)
  moreover from token_price_chain_with_cache [OF o, of warm_service]
  have "get_token_eth_value example_env example_token warm_service = (Inr (Fin 5), warm_service)"
    by (auto simp: warm_hits example_env_sel)
  ultimately show ?thesis by simp
qed

text \<open>
  The claim as stated fails on a cached price: the primary oracle answers 0.001, and the
  call returns the cached 5.
\<close>

theorem primary_oracle_price_counterexample:
  "uniswap_get_price example_env example_token = Inr (fl64 (1 / 1000))
   \<and> fl64 (1 / 1000) \<noteq> Fin 5
   \<and> get_token_eth_value example_env example_token warm_service = (Inr (Fin 5), warm_service)"
  by (simp add: example_env_sel example_arith get_token_eth_value_def warm_hits)

section \<open>Base-currency price feed\<close>

lemma get_eth_usd_price_wrapped_result:
  "fst (get_eth_usd_price_wrapped env s)
     = (if kraken_outcome env = Inl CannotGetEthereumPrice then binance_outcome env
        else kraken_outcome env)"
  by (auto simp: get_eth_usd_price_wrapped_def get_eth_usd_price_kraken_def
        get_eth_usd_price_binance_def split: sum.splits)

lemma get_eth_usd_price_result:
  "fst (get_eth_usd_price env s)
     = (case ttl_getitem (cache_eth_usd_price s) (now env) () of
          Some v \<Rightarrow> Inr v
        | None \<Rightarrow> fst (get_eth_usd_price_wrapped env s))"
  by (auto simp: get_eth_usd_price_def split: option.splits sum.splits prod.splits)

text \<open>
  What the price feed does as documented: \<^verbatim>\<open>get_eth_usd_price\<close> fails with
  \<^verbatim>\<open>CannotGetEthereumPrice\<close> only if both tickers fail with it, and the failing cases
  the code handles: an error status with an \<^verbatim>\<open>error\<close> field, an error signalled in the
  payload, a price that does not parse, a price of zero.
\<close>

lemma price_unavailable_only_if_both_fail:
  assumes "fst (get_eth_usd_price env s) = Inl CannotGetEthereumPrice"
  shows "kraken_outcome env = Inl CannotGetEthereumPrice
         \<and> binance_outcome env = Inl CannotGetEthereumPrice"
  using assms
  by (auto simp: get_eth_usd_price_result get_eth_usd_price_wrapped_result
        split: option.splits if_splits)

lemma kraken_error_signalled:
  assumes "json_body (kraken_ticker env) = JObj kvs" and "map_of kvs ''error'' = Some e"
    and "\<not> ok (kraken_ticker env) \<or> py_truthy e"
  shows "kraken_outcome env = Inl CannotGetEthereumPrice"
  using assms by (auto simp: kraken_outcome_def and_then_def)

lemma binance_error_status:
  assumes "json_body (binance_ticker env) = JObj kvs" and "\<not> ok (binance_ticker env)"
  shows "binance_outcome env = Inl CannotGetEthereumPrice"
  using assms by (simp add: binance_outcome_def and_then_def)

lemma binance_unparsable_or_zero:
  assumes "json_body (binance_ticker env) = JObj kvs" and "ok (binance_ticker env)"
    and "map_of kvs ''price'' = Some (JStr t)"
    and "str_to_float env t = None \<or> str_to_float env t = Some (Fin 0)"
  shows "binance_outcome env = Inl CannotGetEthereumPrice"
  using assms
  by (auto simp: binance_outcome_def and_then_def except_ValueError_def float_truthy_def)

text \<open>
  C1 at the failing inputs. The primary ticker answers with status 200 and no error. When the
  payload has no \<^verbatim>\<open>result\<close> field, \<^verbatim>\<open>get_eth_usd_price\<close> raises \<^verbatim>\<open>KeyError\<close>, after
  the one request to the primary ticker: the secondary ticker, which would answer 2000.0, is
  not asked. When the \<^verbatim>\<open>result\<close> field holds no pair, the call returns \<^verbatim>\<open>None\<close>.
\<close>

theorem missing_price_field_is_not_price_unavailable:
  "fst (get_eth_usd_price missing_result_env BalanceService_init) = Inl KeyError
   \<and> new_calls BalanceService_init (snd (get_eth_usd_price missing_result_env BalanceService_init))
       = [HttpGet kraken_url]
   \<and> binance_outcome missing_result_env = Inr (Some (Fin 2000))
   \<and> fst (get_eth_usd_price empty_result_env BalanceService_init) = Inr None"
  by (simp add: get_eth_usd_price_def init_misses get_eth_usd_price_wrapped_def
        get_eth_usd_price_kraken_def kraken_missing_result kraken_empty_result
        binance_missing_result)

section \<open>Propagation of a price outage\<close>

lemma get_token_info_frame:
  assumes "get_token_info env a s = (v, s')"
  shows "cache_eth_usd_price s' = cache_eth_usd_price s"
    and "cache_token_eth_value s' = cache_token_eth_value s"
  using assms
  by (auto simp: get_token_info_def get_token_info_wrapped_def split: option.splits)

lemma get_balances_loop_frame:
  "get_balances_loop env raw acc s = (bs, s') \<Longrightarrow>
     cache_eth_usd_price s' = cache_eth_usd_price s
     \<and> cache_token_eth_value s' = cache_token_eth_value s"
proof (induction raw arbitrary: acc s)
  case Nil
  then show ?case by simp
next
  case (Cons b rest)
  show ?case
  proof (cases "address_truthy (raw_token_address b) \<and> 0 < raw_amount b")
    case False
    with Cons.prems have "\<exists>acc'. get_balances_loop env rest acc' s = (bs, s')"
      by (auto split: if_splits)
    then show ?thesis using Cons.IH by blast
  next
    case True
    obtain tok s1 where g: "get_token_info env (the (raw_token_address b)) s = (tok, s1)"
      by (cases "get_token_info env (the (raw_token_address b)) s")
    from Cons.prems True g have "\<exists>acc'. get_balances_loop env rest acc' s1 = (bs, s')"
      by (auto split: if_splits)
    then have "cache_eth_usd_price s' = cache_eth_usd_price s1
               \<and> cache_token_eth_value s' = cache_token_eth_value s1"
      using Cons.IH by blast
    with get_token_info_frame[OF g] show ?thesis by simp
  qed
qed

lemma get_balances_frame:
  assumes "get_balances env a s = (r, s')"
  shows "cache_eth_usd_price s' = cache_eth_usd_price s"
    and "cache_token_eth_value s' = cache_token_eth_value s"
proof -
  have "cache_eth_usd_price s' = cache_eth_usd_price s
        \<and> cache_token_eth_value s' = cache_token_eth_value s"
  proof (cases "isChecksumAddress env a")
    case False
    with assms show ?thesis by (simp add: get_balances_def)
  next
    case True
    let ?s2 = "did (Erc20GetBalances a (erc20_tokens_used_by_address env a)) (did (Erc20TokensUsed a) s)"
    obtain bs s3 where
      l: "get_balances_loop env (erc20_get_balances env a (erc20_tokens_used_by_address env a)) [] ?s2
            = (bs, s3)"
      by (cases "get_balances_loop env (erc20_get_balances env a (erc20_tokens_used_by_address env a)) [] ?s2")
    with True assms have "s' = s3" by (simp add: get_balances_def Let_def)
    with get_balances_loop_frame[OF l] show ?thesis by simp
  qed
  then show "cache_eth_usd_price s' = cache_eth_usd_price s"
    and "cache_token_eth_value s' = cache_token_eth_value s" by simp_all
qed





section \<open>The valuation loop\<close>

lemma usd_loop_append:
  "get_usd_balances_loop env eth (xs @ ys) acc s =
     (case get_usd_balances_loop env eth xs acc s of
        (Inl e, s1) \<Rightarrow> (Inl e, s1)
      | (Inr acc', s1) \<Rightarrow> get_usd_balances_loop env eth ys acc' s1)"
proof (induction xs arbitrary: acc s)
  case Nil
  show ?case by simp
next
  case (Cons b xs)
  show ?case
    by (simp add: Cons.IH split: prod.splits sum.splits)
qed

lemma usd_loop_fields:
  "get_usd_balances_loop env eth bs acc s = (Inr out, s') \<Longrightarrow>
     map balance_fields out = map balance_fields acc @ map balance_fields bs"
proof (induction bs arbitrary: acc s)
  case Nil
  then show ?case by simp
next
  case (Cons b bs)
  from Cons.prems obtain usd s1 r where
    "balance_usd_of env eth b s = (Inr usd, s1)" "py_round4 usd = Inr r"
    and rest: "get_usd_balances_loop env eth bs
           (acc @ [\<lparr>token_address = token_address b, token = token b, balance = balance b,
                     balance_usd = r\<rparr>]) s1 = (Inr out, s')"
    by (auto split: prod.splits sum.splits)
  from Cons.IH[OF rest] show ?case
    by (simp add: balance_fields_def)
qed

lemma usd_loop_extends:
  "get_usd_balances_loop env eth bs acc s = (Inr out, s') \<Longrightarrow> \<exists>ext. out = acc @ ext"
proof (induction bs arbitrary: acc s)
  case Nil
  then show ?case by simp
next
  case (Cons b bs)
  from Cons.prems obtain s1 r where
    "get_usd_balances_loop env eth bs
       (acc @ [\<lparr>token_address = token_address b, token = token b, balance = balance b,
                 balance_usd = r\<rparr>]) s1 = (Inr out, s')"
    by (auto split: prod.splits sum.splits)
  from Cons.IH[OF this] show ?case by auto
qed

lemma usd_loop_step:
  assumes "get_usd_balances_loop env eth bs [] s = (Inr out, s')" and "i < length bs"
  shows "\<exists>usd s1. balance_usd_of env eth (bs ! i) (loop_state env eth bs s i) = (Inr usd, s1)
           \<and> py_round4 usd = Inr (balance_usd (out ! i))"
proof -
  have split: "bs = take i bs @ (bs ! i) # drop (Suc i) bs"
    using assms(2) by (simp add: id_take_nth_drop)
  obtain ri si where p: "get_usd_balances_loop env eth (take i bs) [] s = (ri, si)"
    by (cases "get_usd_balances_loop env eth (take i bs) [] s")
  have whole: "get_usd_balances_loop env eth (take i bs @ (bs ! i) # drop (Suc i) bs) [] s
                 = (Inr out, s')"
    using assms(1) split by simp
  from whole p obtain acc where ri: "ri = Inr acc"
    and rest: "get_usd_balances_loop env eth ((bs ! i) # drop (Suc i) bs) acc si = (Inr out, s')"
    by (auto simp: usd_loop_append split: sum.splits)
  have si: "loop_state env eth bs s i = si"
    using p by (simp add: loop_state_def)
  from usd_loop_fields[of env eth "take i bs" "[]" s acc si] p ri
  have "map balance_fields acc = map balance_fields (take i bs)" by simp
  then have "length (map balance_fields acc) = length (map balance_fields (take i bs))" by simp
  then have la: "length acc = i" using assms(2) by simp
  from rest obtain usd s1 r where
    u: "balance_usd_of env eth (bs ! i) si = (Inr usd, s1)" and r: "py_round4 usd = Inr r"
    and tl: "get_usd_balances_loop env eth (drop (Suc i) bs)
           (acc @ [\<lparr>token_address = token_address (bs ! i), token = token (bs ! i),
                     balance = balance (bs ! i), balance_usd = r\<rparr>]) s1 = (Inr out, s')"
    by (auto split: prod.splits sum.splits)
  from usd_loop_extends[OF tl] obtain ext where
    "out = (acc @ [\<lparr>token_address = token_address (bs ! i), token = token (bs ! i),
                     balance = balance (bs ! i), balance_usd = r\<rparr>]) @ ext"
    by blast
  then have "balance_usd (out ! i) = r"
    using la by (auto simp: nth_append)
  with u r si show ?thesis by simp
qed

section \<open>Valued balances\<close>

text \<open>
  C10. When \<^verbatim>\<open>get_usd_balances\<close> succeeds, its output has the length and the order of
  the \<^verbatim>\<open>get_balances\<close> result it was built from, and each element has the contract
  address, the metadata and the raw amount of the corresponding balance.
\<close>

theorem valuation_only_adds_usd_amount:
  assumes "get_usd_balances env a s = (Inr out, s')"
  shows "\<exists>bals s1. get_balances env a s = (Inr bals, s1)
           \<and> length out = length bals
           \<and> map balance_fields out = map balance_fields bals
           \<and> (\<forall>i<length bals. token_address (out ! i) = token_address (bals ! i)
                  \<and> token (out ! i) = token (bals ! i)
                  \<and> balance (out ! i) = balance (bals ! i))"
proof -
  from assms obtain bals s1 eth s2 where
    b: "get_balances env a s = (Inr bals, s1)"
    and l: "get_usd_balances_loop env eth bals [] s2 = (Inr out, s')"
    by (auto simp: get_usd_balances_def split: prod.splits sum.splits)
  from usd_loop_fields[OF l] have m: "map balance_fields out = map balance_fields bals" by simp
  then have len: "length out = length bals" by (rule map_eq_imp_length_eq)
  have "\<forall>i<length bals. token_address (out ! i) = token_address (bals ! i)
                  \<and> token (out ! i) = token (bals ! i)
                  \<and> balance (out ! i) = balance (bals ! i)"
  proof (intro allI impI)
    fix i assume i: "i < length bals"
    from m have "map balance_fields out ! i = map balance_fields bals ! i" by simp
    with i len have "balance_fields (out ! i) = balance_fields (bals ! i)" by simp
    then show "token_address (out ! i) = token_address (bals ! i)
                  \<and> token (out ! i) = token (bals ! i)
                  \<and> balance (out ! i) = balance (bals ! i)"
      by (simp add: balance_fields_def)
  qed
  with b m len show ?thesis by blast
qed

lemma example_balances:
  "fst (get_balances example_env example_safe BalanceService_init)
     = Inr [\<lparr>token_address = None, token = None, balance = 1500000000000000000\<rparr>,
            \<lparr>token_address = Some example_token,
             token = Some (Erc20InfoWithLogo_init example_token ''Example'' ''EXM'' 6),
             balance = 2500000\<rparr>]"
  by (simp add: get_balances_def example_env_sel Let_def get_token_info_def
        get_token_info_wrapped_def init_sel example_addresses)

lemma example_usd_balances:
  "fst (get_usd_balances example_env example_safe BalanceService_init)
     = Inr [\<lparr>token_address = None, token = None, balance = 1500000000000000000,
             balance_usd = Fin 3000\<rparr>,
            \<lparr>token_address = Some example_token,
             token = Some (Erc20InfoWithLogo_init example_token ''Example'' ''EXM'' 6),
             balance = 2500000, balance_usd = Fin 5\<rparr>]"
  apply (simp add: get_usd_balances_def get_balances_def example_env_sel Let_def get_token_info_def
        get_token_info_wrapped_def init_sel example_addresses)
  apply (simp add: get_eth_usd_price_def ttl_getitem_def init_sel get_eth_usd_price_wrapped_def
        get_eth_usd_price_kraken_def kraken_example)
  apply (simp add: balance_usd_of_def and_then_def eth_value_mul_def
        get_token_eth_value_def ttl_getitem_def init_sel get_token_eth_value_wrapped_def
        example_env_sel example_addresses example_arith fl64_vals
        Erc20InfoWithLogo_init_def)
  done

theorem valuation_only_adds_usd_amount_witness:
  "\<exists>bals s1. get_balances example_env example_safe BalanceService_init = (Inr bals, s1)
      \<and> map balance_fields bals
          = [(None, None, 1500000000000000000),
             (Some example_token,
              Some (Erc20InfoWithLogo_init example_token ''Example'' ''EXM'' 6), 2500000)]"
proof -
  let ?out = "[\<lparr>token_address = None, token = None, balance = 1500000000000000000,
                 balance_usd = Fin 3000\<rparr>,
               \<lparr>token_address = Some example_token,
                token = Some (Erc20InfoWithLogo_init example_token ''Example'' ''EXM'' 6),
                balance = 2500000, balance_usd = Fin 5\<rparr>]"
  have "get_usd_balances example_env example_safe BalanceService_init
          = (Inr ?out, snd (get_usd_balances example_env example_safe BalanceService_init))"
    using example_usd_balances by (metis prod.collapse)
  from valuation_only_adds_usd_amount [OF this] obtain bals s1 where
    "get_balances example_env example_safe BalanceService_init = (Inr bals, s1)"
    "map balance_fields ?out = map balance_fields bals"
    by blast
  then show ?thesis
    by (intro exI[of _ bals] exI[of _ s1]) (simp add: balance_fields_def)
qed

lemma get_eth_usd_price_frame:
  assumes "get_eth_usd_price env s = (r, s')"
  shows "cache_token_eth_value s' = cache_token_eth_value s"
  using assms wrapped_eth_frame(2)[of env s]
  by (auto simp: get_eth_usd_price_def split: option.splits sum.splits prod.splits)

lemma get_token_eth_value_result:
  "fst (get_token_eth_value env a s)
     = (case ttl_getitem (cache_token_eth_value s) (now env) a of
          Some v \<Rightarrow> Inr v
        | None \<Rightarrow>
            (case uniswap_get_price env a of
               Inr p \<Rightarrow> Inr p
             | Inl e \<Rightarrow>
                 if e = OracleException then
                   (case kyber_get_price env a of
                      Inr p \<Rightarrow> Inr p
                    | Inl e2 \<Rightarrow> if e2 = OracleException then Inr (Fin 0) else Inl e2)
                 else Inl e))"
  by (auto simp: get_token_eth_value_def get_token_eth_value_wrapped_def
        split: option.splits sum.splits)

lemma py_round4_zero: "py_round4 (Fin 0) = Inr (Fin 0)"
  by (simp add: py_round4_def round_half_even_def fl64_def)

text \<open>
  C7. A token balance of the \<^verbatim>\<open>get_balances\<close> output for which the price chain answers
  0 when the valuation loop reaches it is present in the output of a successful
  \<^verbatim>\<open>get_usd_balances\<close>, at the same position and with the same fields, and its
  \<open>usd_amount\<close> is exactly 0. (That a balance with unresolvable metadata is dropped
  is part of the filter policy of \<^verbatim>\<open>get_balances\<close>.)
\<close>

theorem zero_price_token_valued_at_zero:
  assumes "get_usd_balances env a s = (Inr out, s')"
    and "get_balances env a s = (Inr bals, s1)"
    and "get_eth_usd_price env s1 = (Inr eth, s2)"
    and "i < length bals"
    and "address_truthy (token_address (bals ! i))"
    and "token_price_at env eth bals s2 i = Inr (Fin 0)"
  shows "i < length out
         \<and> balance_fields (out ! i) = balance_fields (bals ! i)
         \<and> balance_usd (out ! i) = Fin 0"
proof -
  from assms(1,2,3) have l: "get_usd_balances_loop env eth bals [] s2 = (Inr out, s')"
    by (simp add: get_usd_balances_def)
  from usd_loop_fields[OF l] have m: "map balance_fields out = map balance_fields bals" by simp
  then have len: "length out = length bals" by (rule map_eq_imp_length_eq)
  from m have "map balance_fields out ! i = map balance_fields bals ! i" by simp
  with assms(4) len have f: "balance_fields (out ! i) = balance_fields (bals ! i)" by simp
  from usd_loop_step[OF l assms(4)] obtain usd sx where
    u: "balance_usd_of env eth (bals ! i) (loop_state env eth bals s2 i) = (Inr usd, sx)"
    and r: "py_round4 usd = Inr (balance_usd (out ! i))"
    by blast
  from assms(6) obtain sy where
    "get_token_eth_value env (the (token_address (bals ! i))) (loop_state env eth bals s2 i)
       = (Inr (Fin 0), sy)"
    unfolding token_price_at_def by (metis prod.collapse)
  with u assms(5) have "usd = Fin 0"
    by (simp add: balance_usd_of_def float_truthy_def)
  with r have "balance_usd (out ! i) = Fin 0" by (simp add: py_round4_zero)
  with f len assms(4) show ?thesis by simp
qed

lemma illiquid_env_sel:
  "now illiquid_env = 0"
  "isChecksumAddress illiquid_env a = (a = example_safe)"
  "erc20_tokens_used_by_address illiquid_env a = [example_token]"
  "erc20_get_balances illiquid_env a ts =
     \<lparr>raw_token_address = None, raw_amount = 1500000000000000000\<rparr>
       # map (\<lambda>t. \<lparr>raw_token_address = Some t, raw_amount = 2500000\<rparr>) ts"
  "erc20_get_info illiquid_env t =
     (if t = example_token
      then Some \<lparr>info_name = ''Example'', info_symbol = ''EXM'', info_decimals = 6\<rparr>
      else None)"
  "uniswap_get_price illiquid_env t = Inl OracleException"
  "kyber_get_price illiquid_env t = Inl OracleException"
  by (simp_all add: illiquid_env_def example_env_def)

lemma kraken_illiquid: "kraken_outcome illiquid_env = Inr (Some (Fin 2000))"
proof -
  have "kraken_ticker illiquid_env = kraken_ticker example_env"
    and "\<And>t. str_to_float illiquid_env t = (if t = ''2000.0'' then Some (Fin 2000) else None)"
    by (simp_all add: illiquid_env_def example_env_def)
  then show ?thesis
    by (simp add: kraken_outcome_def example_env_tickers and_then_def
        except_ValueError_def seq_index_def float_truthy_def)
qed

lemma illiquid_balances:
  "fst (get_balances illiquid_env example_safe BalanceService_init)
     = Inr [\<lparr>token_address = None, token = None, balance = 1500000000000000000\<rparr>,
            \<lparr>token_address = Some example_token,
             token = Some (Erc20InfoWithLogo_init example_token ''Example'' ''EXM'' 6),
             balance = 2500000\<rparr>]"
  by (simp add: get_balances_def illiquid_env_sel Let_def get_token_info_def
        get_token_info_wrapped_def init_sel example_addresses)

lemma illiquid_usd_balances:
  "fst (get_usd_balances illiquid_env example_safe BalanceService_init)
     = Inr [\<lparr>token_address = None, token = None, balance = 1500000000000000000,
             balance_usd = Fin 3000\<rparr>,
            \<lparr>token_address = Some example_token,
             token = Some (Erc20InfoWithLogo_init example_token ''Example'' ''EXM'' 6),
             balance = 2500000, balance_usd = Fin 0\<rparr>]"
  apply (simp add: get_usd_balances_def get_balances_def illiquid_env_sel Let_def get_token_info_def
        get_token_info_wrapped_def init_sel example_addresses)
  apply (simp add: get_eth_usd_price_def ttl_getitem_def init_sel get_eth_usd_price_wrapped_def
        get_eth_usd_price_kraken_def kraken_illiquid)
  apply (simp add: balance_usd_of_def and_then_def eth_value_mul_def
        get_token_eth_value_def ttl_getitem_def init_sel get_token_eth_value_wrapped_def
        illiquid_env_sel example_addresses example_arith fl64_vals float_truthy_def)
  done

text \<open>
  On the fresh service the base price of a call is the primary ticker's, and the token
  price cache is still empty when the valuation loop starts.
\<close>

lemma fresh_service_price:
  assumes b: "get_balances env a BalanceService_init = (Inr bals, s1)"
    and k: "kraken_outcome env = Inr v"
  shows "get_eth_usd_price env s1 = (Inr v, snd (get_eth_usd_price env s1))"
    and "ttl_getitem (cache_token_eth_value (snd (get_eth_usd_price env s1))) t x = None"
proof -
  have "cache_eth_usd_price s1 = cache_eth_usd_price BalanceService_init"
    by (rule get_balances_frame(1)[OF b])
  then have "fst (get_eth_usd_price env s1) = Inr v"
    using k by (simp add: get_eth_usd_price_result init_misses get_eth_usd_price_wrapped_result)
  then show e: "get_eth_usd_price env s1 = (Inr v, snd (get_eth_usd_price env s1))"
    by (metis prod.collapse)
  have "cache_token_eth_value (snd (get_eth_usd_price env s1)) = cache_token_eth_value s1"
    by (rule get_eth_usd_price_frame[OF e])
  also have "\<dots> = cache_token_eth_value BalanceService_init"
    by (rule get_balances_frame(2)[OF b])
  finally show "ttl_getitem (cache_token_eth_value (snd (get_eth_usd_price env s1))) t x = None"
    by (simp add: init_misses)
qed

text \<open>The valuation of the base-currency entry of the deployment leaves the service as it is.\<close>

lemma loop_state_after_base_entry:
  "loop_state env (Some (Fin 2000))
     (\<lparr>token_address = None, token = None, balance = 1500000000000000000\<rparr> # rest) s (Suc 0)
     = s"
  by (simp add: loop_state_def balance_usd_of_def and_then_def eth_value_mul_def
        example_arith fl64_vals)

theorem zero_price_token_valued_at_zero_witness:
  "fst (get_usd_balances illiquid_env example_safe BalanceService_init)
     = Inr [\<lparr>token_address = None, token = None, balance = 1500000000000000000,
             balance_usd = Fin 3000\<rparr>,
            \<lparr>token_address = Some example_token,
             token = Some (Erc20InfoWithLogo_init example_token ''Example'' ''EXM'' 6),
             balance = 2500000, balance_usd = Fin 0\<rparr>]
   \<and> balance_usd
        ([\<lparr>token_address = None, token = None, balance = 1500000000000000000,
            balance_usd = Fin 3000\<rparr>,
          \<lparr>token_address = Some example_token,
           token = Some (Erc20InfoWithLogo_init example_token ''Example'' ''EXM'' 6),
           balance = 2500000, balance_usd = Fin 0\<rparr>] ! 1) = Fin 0"
proof -
  let ?out = "[\<lparr>token_address = None, token = None, balance = 1500000000000000000,
                 balance_usd = Fin 3000\<rparr>,
               \<lparr>token_address = Some example_token,
                token = Some (Erc20InfoWithLogo_init example_token ''Example'' ''EXM'' 6),
                balance = 2500000, balance_usd = Fin 0\<rparr>]"
  let ?bals = "[\<lparr>token_address = None, token = None, balance = 1500000000000000000\<rparr>,
                \<lparr>token_address = Some example_token,
                 token = Some (Erc20InfoWithLogo_init example_token ''Example'' ''EXM'' 6),
                 balance = 2500000\<rparr>]"
  let ?s1 = "snd (get_balances illiquid_env example_safe BalanceService_init)"
  let ?s2 = "snd (get_eth_usd_price illiquid_env ?s1)"
  have u: "get_usd_balances illiquid_env example_safe BalanceService_init
             = (Inr ?out, snd (get_usd_balances illiquid_env example_safe BalanceService_init))"
    using illiquid_usd_balances by (metis prod.collapse)
  have b: "get_balances illiquid_env example_safe BalanceService_init = (Inr ?bals, ?s1)"
    using illiquid_balances by (metis prod.collapse)
  note f = fresh_service_price [OF b kraken_illiquid]
  have p: "token_price_at illiquid_env (Some (Fin 2000)) ?bals ?s2 1 = Inr (Fin 0)"
    by (simp add: token_price_at_def loop_state_after_base_entry get_token_eth_value_result
          f(2) illiquid_env_sel)
  have i: "1 < length ?bals" and t: "address_truthy (token_address (?bals ! 1))"
    by (simp_all add: example_addresses)
  from zero_price_token_valued_at_zero [OF u b f(1) i t p]
  have "balance_usd (?out ! 1) = Fin 0" by blast
  with illiquid_usd_balances show ?thesis by blast
qed

section \<open>Rounding to 4 fractional digits\<close>

lemma round_half_even_candidates:
  "round_half_even y \<in> {\<lfloor>y\<rfloor>, \<lfloor>y\<rfloor> + 1}"
  by (simp add: round_half_even_def)

lemma round_half_even_nearest:
  "nearest_ties_even y (round_half_even y)"
proof -
  define d where "d = y - of_int \<lfloor>y\<rfloor>"
  have lo: "0 \<le> d" and hi: "d < 1"
    unfolding d_def by linarith+
  have up: "y - of_int (\<lfloor>y\<rfloor> + 1) = d - 1"
    unfolding d_def by simp
  consider (below) "d < 1 / 2" | (above) "1 / 2 < d" | (tie) "d = 1 / 2"
    by linarith
  then show ?thesis
  proof cases
    case below
    then have "round_half_even y = \<lfloor>y\<rfloor>"
      unfolding d_def by (simp add: round_half_even_def)
    moreover have "\<bar>y - of_int \<lfloor>y\<rfloor>\<bar> < 1 / 2"
      using below lo unfolding d_def by simp
    ultimately show ?thesis
      by (simp add: nearest_ties_even_def)
  next
    case above
    then have "round_half_even y = \<lfloor>y\<rfloor> + 1"
      unfolding d_def by (simp add: round_half_even_def)
    moreover have "\<bar>d - 1\<bar> < 1 / 2"
      using above hi by simp
    ultimately show ?thesis
      unfolding nearest_ties_even_def up[symmetric] by simp
  next
    case tie
    show ?thesis
    proof (cases "even \<lfloor>y\<rfloor>")
      case True
      with tie have "round_half_even y = \<lfloor>y\<rfloor>"
        unfolding d_def by (simp add: round_half_even_def)
      moreover have "\<bar>y - of_int \<lfloor>y\<rfloor>\<bar> = 1 / 2"
        using tie unfolding d_def by simp
      ultimately show ?thesis
        using True by (simp add: nearest_ties_even_def)
    next
      case False
      with tie have "round_half_even y = \<lfloor>y\<rfloor> + 1"
        unfolding d_def by (simp add: round_half_even_def)
      moreover have "\<bar>d - 1\<bar> = 1 / 2"
        using tie by simp
      moreover have "even (\<lfloor>y\<rfloor> + 1)"
        using False by simp
      ultimately show ?thesis
        unfolding nearest_ties_even_def up[symmetric] by simp
    qed
  qed
qed

lemma nearest_ties_even_step:
  assumes "nearest_ties_even y k" and "nearest_ties_even y (k + 1)"
  shows False
proof -
  from assms have a: "\<bar>y - of_int k\<bar> \<le> 1 / 2" and b: "\<bar>y - of_int (k + 1)\<bar> \<le> 1 / 2"
    by (auto simp: nearest_ties_even_def)
  from a have a1: "y - of_int k \<le> 1 / 2" by linarith
  from b have "\<bar>y - (of_int k + 1)\<bar> \<le> 1 / 2" by (simp only: of_int_add of_int_1)
  then have b1: "of_int k + 1 - y \<le> 1 / 2" by linarith
  from a1 b1 have e: "y - of_int k = 1 / 2" by linarith
  then have "\<bar>y - of_int k\<bar> = 1 / 2" by simp
  with assms(1) have ek: "even k" by (simp add: nearest_ties_even_def)
  from e have "y - of_int (k + 1) = - (1 / 2)" by simp
  then have "\<bar>y - of_int (k + 1)\<bar> = 1 / 2" by simp
  with assms(2) have "even (k + 1)" by (simp add: nearest_ties_even_def)
  with ek show False by simp
qed

lemma nearest_ties_even_unique:
  assumes "nearest_ties_even y k" and "nearest_ties_even y k'"
  shows "k = k'"
proof -
  from assms have a: "\<bar>y - of_int k\<bar> \<le> 1 / 2" and b: "\<bar>y - of_int k'\<bar> \<le> 1 / 2"
    by (auto simp: nearest_ties_even_def)
  from a have a1: "y - of_int k \<le> 1 / 2" and a2: "of_int k - y \<le> 1 / 2"
    by linarith+
  from b have b1: "y - of_int k' \<le> 1 / 2" and b2: "of_int k' - y \<le> 1 / 2"
    by linarith+
  from a2 b1 have "(of_int k :: rat) \<le> of_int k' + 1" by linarith
  then have "(of_int k :: rat) \<le> of_int (k' + 1)" by simp
  then have u: "k \<le> k' + 1" by (simp only: of_int_le_iff)
  from b2 a1 have "(of_int k' :: rat) \<le> of_int k + 1" by linarith
  then have "(of_int k' :: rat) \<le> of_int (k + 1)" by simp
  then have l: "k' \<le> k + 1" by (simp only: of_int_le_iff)
  from u l consider "k = k'" | "k' = k + 1" | "k = k' + 1" by linarith
  then show ?thesis
  proof cases
    case 1
    then show ?thesis .
  next
    case 2
    with assms nearest_ties_even_step[of y k] show ?thesis by simp
  next
    case 3
    with assms nearest_ties_even_step[of y k'] show ?thesis by simp
  qed
qed

lemma py_round4_rounds:
  assumes "py_round4 x = Inr r"
  shows "rounded_to_4_digits x r"
proof (cases x)
  case (Fin a)
  with assms have r: "r = fl64 (of_int (round_half_even (a * 10 ^ 4)) / 10 ^ 4)"
    by (auto simp: py_round4_def split: pyfloat.splits)
  have "\<exists>k\<in>{\<lfloor>a * 10 ^ 4\<rfloor>, \<lfloor>a * 10 ^ 4\<rfloor> + 1}.
          nearest_ties_even (a * 10 ^ 4) k \<and> r = fl64 (of_int k / 10 ^ 4)"
    using round_half_even_candidates[of "a * 10 ^ 4"] round_half_even_nearest[of "a * 10 ^ 4"] r
    by (intro bexI[of _ "round_half_even (a * 10 ^ 4)"]) auto
  with Fin show ?thesis
    by (simp only: rounded_to_4_digits_def pyfloat.case)
next
  case PInf
  with assms show ?thesis by (simp add: py_round4_def rounded_to_4_digits_def)
next
  case NInf
  with assms show ?thesis by (simp add: py_round4_def rounded_to_4_digits_def)
next
  case NaN
  with assms show ?thesis by (simp add: py_round4_def rounded_to_4_digits_def)
qed

lemma rounded_to_4_digits_unique:
  assumes "rounded_to_4_digits x r" and "rounded_to_4_digits x r'"
  shows "r = r'"
proof (cases x)
  case (Fin a)
  from assms(1) Fin obtain k where
    k: "nearest_ties_even (a * 10 ^ 4) k" "r = fl64 (of_int k / 10 ^ 4)"
    by (auto simp only: rounded_to_4_digits_def pyfloat.case)
  from assms(2) Fin obtain k' where
    k': "nearest_ties_even (a * 10 ^ 4) k'" "r' = fl64 (of_int k' / 10 ^ 4)"
    by (auto simp only: rounded_to_4_digits_def pyfloat.case)
  from nearest_ties_even_unique[OF k(1) k'(1)] k(2) k'(2) show ?thesis by simp
next
  case PInf
  with assms show ?thesis by (simp add: rounded_to_4_digits_def)
next
  case NInf
  with assms show ?thesis by (simp add: rounded_to_4_digits_def)
next
  case NaN
  with assms show ?thesis by (simp add: rounded_to_4_digits_def)
qed

lemma fraction_env_sel:
  "now fraction_env = 0"
  "isChecksumAddress fraction_env a = (a = example_safe)"
  "erc20_tokens_used_by_address fraction_env a = [example_token]"
  "erc20_get_balances fraction_env a ts =
     \<lparr>raw_token_address = None, raw_amount = 1234567890000000000\<rparr>
       # map (\<lambda>t. \<lparr>raw_token_address = Some t, raw_amount = 1234567\<rparr>) ts"
  "erc20_get_info fraction_env t =
     (if t = example_token
      then Some \<lparr>info_name = ''Example'', info_symbol = ''EXM'', info_decimals = 6\<rparr>
      else None)"
  "uniswap_get_price fraction_env t = Inr (fl64 (1 / 1000))"
  "kyber_get_price fraction_env t = Inl OracleException"
  by (simp_all add: fraction_env_def example_env_def)

lemma kraken_fraction: "kraken_outcome fraction_env = Inr (Some (Fin 2000))"
proof -
  have "kraken_ticker fraction_env = kraken_ticker example_env"
    and "\<And>t. str_to_float fraction_env t = (if t = ''2000.0'' then Some (Fin 2000) else None)"
    by (simp_all add: fraction_env_def example_env_def)
  then show ?thesis
    by (simp add: kraken_outcome_def example_env_tickers and_then_def
        except_ValueError_def seq_index_def float_truthy_def)
qed

lemma fraction_quotients:
  "int_truediv 1234567890000000000 1000000000000000000
     = Inr (Fin (5559999489367579 / 4503599627370496))"
  "int_truediv 1234567 1000000 = Inr (Fin (5559995481163911 / 4503599627370496))"
  by (simp_all add: int_truediv_def) (simp_all add: float_eval)

lemma fraction_products:
  "float_mul (Fin 2000) (Fin (5559999489367579 / 4503599627370496))
     = Fin (2714843500667763 / 1099511627776)"
  "float_mul (Fin 2) (Fin (5559995481163911 / 4503599627370496))
     = Fin (5559995481163911 / 2251799813685248)"
  by (simp_all add: float_eval)

lemma fraction_decimals:
  "fl64 (24691358 / 10000) = Fin (678710880664499 / 274877906944)"
  "fl64 (24691 / 10000) = Fin (2779959459985123 / 1125899906842624)"
  by (simp_all add: float_eval)

lemma fraction_rounded:
  "py_round4 (Fin (2714843500667763 / 1099511627776)) = Inr (fl64 (24691358 / 10000))"
  "py_round4 (Fin (5559995481163911 / 2251799813685248)) = Inr (fl64 (24691 / 10000))"
  unfolding fraction_decimals
  by (simp_all add: py_round4_def) (simp_all add: float_eval)

lemma fraction_balances:
  "fst (get_balances fraction_env example_safe BalanceService_init)
     = Inr [\<lparr>token_address = None, token = None, balance = 1234567890000000000\<rparr>,
            \<lparr>token_address = Some example_token,
             token = Some (Erc20InfoWithLogo_init example_token ''Example'' ''EXM'' 6),
             balance = 1234567\<rparr>]"
  by (simp add: get_balances_def fraction_env_sel Let_def get_token_info_def
        get_token_info_wrapped_def init_sel example_addresses)

lemma fraction_usd_balances:
  "fst (get_usd_balances fraction_env example_safe BalanceService_init)
     = Inr [\<lparr>token_address = None, token = None, balance = 1234567890000000000,
             balance_usd = fl64 (24691358 / 10000)\<rparr>,
            \<lparr>token_address = Some example_token,
             token = Some (Erc20InfoWithLogo_init example_token ''Example'' ''EXM'' 6),
             balance = 1234567, balance_usd = fl64 (24691 / 10000)\<rparr>]"
  apply (simp add: get_usd_balances_def get_balances_def fraction_env_sel Let_def get_token_info_def
        get_token_info_wrapped_def init_sel example_addresses)
  apply (simp add: get_eth_usd_price_def ttl_getitem_def init_sel get_eth_usd_price_wrapped_def
        get_eth_usd_price_kraken_def kraken_fraction)
  apply (simp add: balance_usd_of_def and_then_def eth_value_mul_def
        get_token_eth_value_def ttl_getitem_def init_sel get_token_eth_value_wrapped_def
        fraction_env_sel example_addresses example_arith fraction_quotients fraction_products
        fraction_rounded Erc20InfoWithLogo_init_def del: float_mul.simps)
  done

lemma loop_state_after_fraction_entry:
  "loop_state env (Some (Fin 2000))
     (\<lparr>token_address = None, token = None, balance = 1234567890000000000\<rparr> # rest) s (Suc 0)
     = s"
  by (simp add: loop_state_def balance_usd_of_def and_then_def eth_value_mul_def
        fraction_quotients fraction_products fraction_rounded del: float_mul.simps)

text \<open>
  C3. In the output of a successful \<^verbatim>\<open>get_usd_balances\<close>, with \<open>eth\<close> the base price
  the call obtained: the \<open>usd_amount\<close> of a base-currency entry is
  \<open>eth * (raw_amount / 10^18)\<close> rounded to 4 fractional digits; the \<open>usd_amount\<close> of a
  token entry for which the price chain answers a nonzero \<open>p\<close> is
  \<open>eth * p * (raw_amount / 10^decimals)\<close> rounded to 4 fractional digits, all in float
  arithmetic. Rounded means: the float nearest to the decimal \<open>k / 10^4\<close>, where \<open>k\<close> is
  the integer nearest to 10^4 times the product, ties to even. With base price 2000.0 the
  raw amount 1500000000000000000 is valued 3000.0, and with 6 decimals, raw amount 2500000
  and token price 0.001 the value is 5.0; the raw amount 1234567890000000000 is valued
  2469.1358, and 1234567 of the token 2.4691.
\<close>

theorem usd_amount_formula:
  assumes "get_usd_balances env a s = (Inr out, s')"
    and "get_balances env a s = (Inr bals, s1)"
    and "get_eth_usd_price env s1 = (Inr eth, s2)"
    and "i < length bals"
  shows "(\<not> address_truthy (token_address (bals ! i)) \<longrightarrow>
            (\<exists>e d. eth = Some e
               \<and> int_truediv (balance (bals ! i)) (10 ^ 18) = Inr d
               \<and> py_round4 (float_mul e d) = Inr (balance_usd (out ! i))
               \<and> rounded_to_4_digits (float_mul e d) (balance_usd (out ! i))))
       \<and> (address_truthy (token_address (bals ! i)) \<longrightarrow>
            (\<forall>p. token_price_at env eth bals s2 i = Inr p \<and> p \<noteq> Fin 0 \<longrightarrow>
               (\<exists>e m d. eth = Some e \<and> token (bals ! i) = Some m
                  \<and> int_truediv (balance (bals ! i)) (10 ^ decimals m) = Inr d
                  \<and> py_round4 (float_mul (float_mul e p) d) = Inr (balance_usd (out ! i))
                  \<and> rounded_to_4_digits (float_mul (float_mul e p) d) (balance_usd (out ! i)))))
       \<and> and_then (int_truediv 1500000000000000000 (10 ^ 18))
            (\<lambda>d. py_round4 (float_mul (Fin 2000) d)) = Inr (Fin 3000)
       \<and> and_then (int_truediv 2500000 (10 ^ 6))
            (\<lambda>d. py_round4 (float_mul (float_mul (Fin 2000) (fl64 (1 / 1000))) d)) = Inr (Fin 5)
       \<and> and_then (int_truediv 1234567890000000000 (10 ^ 18))
            (\<lambda>d. py_round4 (float_mul (Fin 2000) d)) = Inr (fl64 (24691358 / 10000))
       \<and> and_then (int_truediv 1234567 (10 ^ 6))
            (\<lambda>d. py_round4 (float_mul (float_mul (Fin 2000) (fl64 (1 / 1000))) d))
           = Inr (fl64 (24691 / 10000))"
proof -
  from assms(1,2,3) have l: "get_usd_balances_loop env eth bals [] s2 = (Inr out, s')"
    by (simp add: get_usd_balances_def)
  from usd_loop_step[OF l assms(4)] obtain usd sx where
    u: "balance_usd_of env eth (bals ! i) (loop_state env eth bals s2 i) = (Inr usd, sx)"
    and r: "py_round4 usd = Inr (balance_usd (out ! i))"
    by blast
  note rd = py_round4_rounds[OF r]
  have base: "\<not> address_truthy (token_address (bals ! i)) \<longrightarrow>
            (\<exists>e d. eth = Some e
               \<and> int_truediv (balance (bals ! i)) (10 ^ 18) = Inr d
               \<and> py_round4 (float_mul e d) = Inr (balance_usd (out ! i))
               \<and> rounded_to_4_digits (float_mul e d) (balance_usd (out ! i)))"
    using u r rd
    by (auto simp: balance_usd_of_def and_then_def eth_value_mul_def
          split: sum.splits option.splits)
  have tok: "address_truthy (token_address (bals ! i)) \<longrightarrow>
            (\<forall>p. token_price_at env eth bals s2 i = Inr p \<and> p \<noteq> Fin 0 \<longrightarrow>
               (\<exists>e m d. eth = Some e \<and> token (bals ! i) = Some m
                  \<and> int_truediv (balance (bals ! i)) (10 ^ decimals m) = Inr d
                  \<and> py_round4 (float_mul (float_mul e p) d) = Inr (balance_usd (out ! i))
                  \<and> rounded_to_4_digits (float_mul (float_mul e p) d) (balance_usd (out ! i))))"
  proof (intro impI allI)
    fix p
    assume t: "address_truthy (token_address (bals ! i))"
      and p: "token_price_at env eth bals s2 i = Inr p \<and> p \<noteq> Fin 0"
    then obtain sy where
      g: "get_token_eth_value env (the (token_address (bals ! i))) (loop_state env eth bals s2 i)
            = (Inr p, sy)"
      unfolding token_price_at_def by (metis prod.collapse)
    from p have "float_truthy p" by (simp add: float_truthy_def)
    with u r rd t g show "\<exists>e m d. eth = Some e \<and> token (bals ! i) = Some m
                  \<and> int_truediv (balance (bals ! i)) (10 ^ decimals m) = Inr d
                  \<and> py_round4 (float_mul (float_mul e p) d) = Inr (balance_usd (out ! i))
                  \<and> rounded_to_4_digits (float_mul (float_mul e p) d) (balance_usd (out ! i))"
      by (auto simp: balance_usd_of_def and_then_def eth_value_mul_def
            split: sum.splits option.splits)
  qed
  have ex1: "and_then (int_truediv 1500000000000000000 (10 ^ 18))
            (\<lambda>d. py_round4 (float_mul (Fin 2000) d)) = Inr (Fin 3000)"
    by (simp add: and_then_def example_arith fl64_vals)
  have ex2: "and_then (int_truediv 2500000 (10 ^ 6))
            (\<lambda>d. py_round4 (float_mul (float_mul (Fin 2000) (fl64 (1 / 1000))) d)) = Inr (Fin 5)"
    by (simp add: and_then_def example_arith fl64_vals)
  have ex3: "and_then (int_truediv 1234567890000000000 (10 ^ 18))
            (\<lambda>d. py_round4 (float_mul (Fin 2000) d)) = Inr (fl64 (24691358 / 10000))"
    by (simp add: and_then_def fraction_quotients fraction_products fraction_rounded
          del: float_mul.simps)
  have ex4: "and_then (int_truediv 1234567 (10 ^ 6))
            (\<lambda>d. py_round4 (float_mul (float_mul (Fin 2000) (fl64 (1 / 1000))) d))
           = Inr (fl64 (24691 / 10000))"
    by (simp add: and_then_def example_arith fraction_quotients fraction_products fraction_rounded
          del: float_mul.simps)
  from base tok ex1 ex2 ex3 ex4 show ?thesis by blast
qed

theorem usd_amount_formula_witness:
  "fst (get_usd_balances fraction_env example_safe BalanceService_init)
     = Inr [\<lparr>token_address = None, token = None, balance = 1234567890000000000,
             balance_usd = fl64 (24691358 / 10000)\<rparr>,
            \<lparr>token_address = Some example_token,
             token = Some (Erc20InfoWithLogo_init example_token ''Example'' ''EXM'' 6),
             balance = 1234567, balance_usd = fl64 (24691 / 10000)\<rparr>]
   \<and> rounded_to_4_digits (Fin (2714843500667763 / 1099511627776)) (fl64 (24691358 / 10000))
   \<and> rounded_to_4_digits (Fin (5559995481163911 / 2251799813685248)) (fl64 (24691 / 10000))
   \<and> fl64 (24691358 / 10000) \<noteq> Fin (2714843500667763 / 1099511627776)
   \<and> fl64 (24691 / 10000) \<noteq> Fin (5559995481163911 / 2251799813685248)"
proof -
  let ?out = "[\<lparr>token_address = None, token = None, balance = 1234567890000000000,
                 balance_usd = fl64 (24691358 / 10000)\<rparr>,
               \<lparr>token_address = Some example_token,
                token = Some (Erc20InfoWithLogo_init example_token ''Example'' ''EXM'' 6),
                balance = 1234567, balance_usd = fl64 (24691 / 10000)\<rparr>]"
  let ?bals = "[\<lparr>token_address = None, token = None, balance = 1234567890000000000\<rparr>,
                \<lparr>token_address = Some example_token,
                 token = Some (Erc20InfoWithLogo_init example_token ''Example'' ''EXM'' 6),
                 balance = 1234567\<rparr>]"
  let ?s1 = "snd (get_balances fraction_env example_safe BalanceService_init)"
  let ?s2 = "snd (get_eth_usd_price fraction_env ?s1)"
  have u: "get_usd_balances fraction_env example_safe BalanceService_init
             = (Inr ?out, snd (get_usd_balances fraction_env example_safe BalanceService_init))"
    using fraction_usd_balances by (metis prod.collapse)
  have b: "get_balances fraction_env example_safe BalanceService_init = (Inr ?bals, ?s1)"
    using fraction_balances by (metis prod.collapse)
  note f = fresh_service_price [OF b kraken_fraction]
  have p: "token_price_at fraction_env (Some (Fin 2000)) ?bals ?s2 1 = Inr (fl64 (1 / 1000))"
    by (simp add: token_price_at_def loop_state_after_fraction_entry get_token_eth_value_result
          f(2) fraction_env_sel)
  have nz: "fl64 (1 / 1000) \<noteq> Fin 0"
    using example_arith by (simp add: float_truthy_def)
  have i0: "0 < length ?bals" and i1: "1 < length ?bals" by simp_all
  from usd_amount_formula [OF u b f(1) i0]
  have base: "rounded_to_4_digits (Fin (2714843500667763 / 1099511627776)) (fl64 (24691358 / 10000))"
    by (auto simp: fraction_quotients fraction_products simp del: float_mul.simps)
  from usd_amount_formula [OF u b f(1) i1] p nz
  have "\<exists>e m d. Some (Fin 2000) = Some e
          \<and> token (?bals ! 1) = Some m
          \<and> int_truediv (balance (?bals ! 1)) (10 ^ decimals m) = Inr d
          \<and> rounded_to_4_digits (float_mul (float_mul e (fl64 (1 / 1000))) d) (balance_usd (?out ! 1))"
    by (simp add: example_addresses del: float_mul.simps) blast
  then have tok: "rounded_to_4_digits (Fin (5559995481163911 / 2251799813685248)) (fl64 (24691 / 10000))"
    by (auto simp: Erc20InfoWithLogo_init_def example_arith fraction_quotients fraction_products
          simp del: float_mul.simps)
  have ne: "fl64 (24691358 / 10000) \<noteq> Fin (2714843500667763 / 1099511627776)"
    "fl64 (24691 / 10000) \<noteq> Fin (5559995481163911 / 2251799813685248)"
    unfolding fraction_decimals by simp_all
  from fraction_usd_balances base tok ne show ?thesis by blast
qed

end
